theory Spec2Isabelle
  imports Main "HOL-Library.Word"
begin

unbundle bit_operations_syntax

section \<open>Machine types\<close>

type_synonym u8 = "8 word"
type_synonym u16 = "16 word"
type_synonym u32 = "32 word"

section \<open>CRC for qCRC (m68k-gdbserver.c, crc32_table and xcrc32)\<close>

text \<open>The 256-entry table of the source, copied entry by entry.\<close>

definition crc32_table :: "u32 list" where
  "crc32_table = [
    0x00000000, 0x04c11db7, 0x09823b6e, 0x0d4326d9,
    0x130476dc, 0x17c56b6b, 0x1a864db2, 0x1e475005,
    0x2608edb8, 0x22c9f00f, 0x2f8ad6d6, 0x2b4bcb61,
    0x350c9b64, 0x31cd86d3, 0x3c8ea00a, 0x384fbdbd,
    0x4c11db70, 0x48d0c6c7, 0x4593e01e, 0x4152fda9,
    0x5f15adac, 0x5bd4b01b, 0x569796c2, 0x52568b75,
    0x6a1936c8, 0x6ed82b7f, 0x639b0da6, 0x675a1011,
    0x791d4014, 0x7ddc5da3, 0x709f7b7a, 0x745e66cd,
    0x9823b6e0, 0x9ce2ab57, 0x91a18d8e, 0x95609039,
    0x8b27c03c, 0x8fe6dd8b, 0x82a5fb52, 0x8664e6e5,
    0xbe2b5b58, 0xbaea46ef, 0xb7a96036, 0xb3687d81,
    0xad2f2d84, 0xa9ee3033, 0xa4ad16ea, 0xa06c0b5d,
    0xd4326d90, 0xd0f37027, 0xddb056fe, 0xd9714b49,
    0xc7361b4c, 0xc3f706fb, 0xceb42022, 0xca753d95,
    0xf23a8028, 0xf6fb9d9f, 0xfbb8bb46, 0xff79a6f1,
    0xe13ef6f4, 0xe5ffeb43, 0xe8bccd9a, 0xec7dd02d,
    0x34867077, 0x30476dc0, 0x3d044b19, 0x39c556ae,
    0x278206ab, 0x23431b1c, 0x2e003dc5, 0x2ac12072,
    0x128e9dcf, 0x164f8078, 0x1b0ca6a1, 0x1fcdbb16,
    0x018aeb13, 0x054bf6a4, 0x0808d07d, 0x0cc9cdca,
    0x7897ab07, 0x7c56b6b0, 0x71159069, 0x75d48dde,
    0x6b93dddb, 0x6f52c06c, 0x6211e6b5, 0x66d0fb02,
    0x5e9f46bf, 0x5a5e5b08, 0x571d7dd1, 0x53dc6066,
    0x4d9b3063, 0x495a2dd4, 0x44190b0d, 0x40d816ba,
    0xaca5c697, 0xa864db20, 0xa527fdf9, 0xa1e6e04e,
    0xbfa1b04b, 0xbb60adfc, 0xb6238b25, 0xb2e29692,
    0x8aad2b2f, 0x8e6c3698, 0x832f1041, 0x87ee0df6,
    0x99a95df3, 0x9d684044, 0x902b669d, 0x94ea7b2a,
    0xe0b41de7, 0xe4750050, 0xe9362689, 0xedf73b3e,
    0xf3b06b3b, 0xf771768c, 0xfa325055, 0xfef34de2,
    0xc6bcf05f, 0xc27dede8, 0xcf3ecb31, 0xcbffd686,
    0xd5b88683, 0xd1799b34, 0xdc3abded, 0xd8fba05a,
    0x690ce0ee, 0x6dcdfd59, 0x608edb80, 0x644fc637,
    0x7a089632, 0x7ec98b85, 0x738aad5c, 0x774bb0eb,
    0x4f040d56, 0x4bc510e1, 0x46863638, 0x42472b8f,
    0x5c007b8a, 0x58c1663d, 0x558240e4, 0x51435d53,
    0x251d3b9e, 0x21dc2629, 0x2c9f00f0, 0x285e1d47,
    0x36194d42, 0x32d850f5, 0x3f9b762c, 0x3b5a6b9b,
    0x0315d626, 0x07d4cb91, 0x0a97ed48, 0x0e56f0ff,
    0x1011a0fa, 0x14d0bd4d, 0x19939b94, 0x1d528623,
    0xf12f560e, 0xf5ee4bb9, 0xf8ad6d60, 0xfc6c70d7,
    0xe22b20d2, 0xe6ea3d65, 0xeba91bbc, 0xef68060b,
    0xd727bbb6, 0xd3e6a601, 0xdea580d8, 0xda649d6f,
    0xc423cd6a, 0xc0e2d0dd, 0xcda1f604, 0xc960ebb3,
    0xbd3e8d7e, 0xb9ff90c9, 0xb4bcb610, 0xb07daba7,
    0xae3afba2, 0xaafbe615, 0xa7b8c0cc, 0xa379dd7b,
    0x9b3660c6, 0x9ff77d71, 0x92b45ba8, 0x9675461f,
    0x8832161a, 0x8cf30bad, 0x81b02d74, 0x857130c3,
    0x5d8a9099, 0x594b8d2e, 0x5408abf7, 0x50c9b640,
    0x4e8ee645, 0x4a4ffbf2, 0x470cdd2b, 0x43cdc09c,
    0x7b827d21, 0x7f436096, 0x7200464f, 0x76c15bf8,
    0x68860bfd, 0x6c47164a, 0x61043093, 0x65c52d24,
    0x119b4be9, 0x155a565e, 0x18197087, 0x1cd86d30,
    0x029f3d35, 0x065e2082, 0x0b1d065b, 0x0fdc1bec,
    0x3793a651, 0x3352bbe6, 0x3e119d3f, 0x3ad08088,
    0x2497d08d, 0x2056cd3a, 0x2d15ebe3, 0x29d4f654,
    0xc5a92679, 0xc1683bce, 0xcc2b1d17, 0xc8ea00a0,
    0xd6ad50a5, 0xd26c4d12, 0xdf2f6bcb, 0xdbee767c,
    0xe3a1cbc1, 0xe760d676, 0xea23f0af, 0xeee2ed18,
    0xf0a5bd1d, 0xf464a0aa, 0xf9278673, 0xfde69bc4,
    0x89b8fd09, 0x8d79e0be, 0x803ac667, 0x84fbdbd0,
    0x9abc8bd5, 0x9e7d9662, 0x933eb0bb, 0x97ffad0c,
    0xafb010b1, 0xab710d06, 0xa6322bdf, 0xa2f33668,
    0xbcb4666d, 0xb8757bda, 0xb5365d03, 0xb1f740b4
  ]"

text \<open>
  \<^verbatim>\<open>while (len--) { crc = (crc << 8) ^ crc32_table[((crc >> 24) ^ *buf) & 255]; buf++; }\<close>
  The buffer and its length are one list; the index expression is computed as the C
  code does (the byte is promoted, xor-ed with the top byte and masked with 255).
\<close>

fun xcrc32 :: "u8 list \<Rightarrow> u32 \<Rightarrow> u32" where
  "xcrc32 [] crc = crc"
| "xcrc32 (b # buf) crc =
     xcrc32 buf (push_bit 8 crc XOR crc32_table ! unat ((drop_bit 24 crc XOR ucast b) AND 255))"

text \<open>
  The reference the spec names: CRC-32 with polynomial 0x04C11DB7, most significant bit
  first, no reflection and no final xor. One bit step shifts left and subtracts the
  polynomial when the bit shifted out was set; a byte is xor-ed into the top eight bits and
  followed by eight bit steps.
\<close>

definition crc_poly :: u32 where
  "crc_poly = 0x04c11db7"

definition crc_bit_step :: "u32 \<Rightarrow> u32" where
  "crc_bit_step c = (if bit c 31 then push_bit 1 c XOR crc_poly else push_bit 1 c)"

definition crc_ref_byte :: "u32 \<Rightarrow> u8 \<Rightarrow> u32" where
  "crc_ref_byte c b = (crc_bit_step ^^ 8) (c XOR push_bit 24 (ucast b))"

fun crc_ref :: "u8 list \<Rightarrow> u32 \<Rightarrow> u32" where
  "crc_ref [] crc = crc"
| "crc_ref (b # buf) crc = crc_ref buf (crc_ref_byte crc b)"


subsection \<open>The table agrees with the bit-serial reference\<close>

lemma funpow8: "(f ^^ 8) x = f (f (f (f (f (f (f (f x)))))))"
  by (simp add: eval_nat_numeral)

fun table_from :: "u32 \<Rightarrow> u32 list \<Rightarrow> bool" where
  "table_from w [] = True"
| "table_from w (t # ts) = (t = (crc_bit_step ^^ 8) (push_bit 24 w) \<and> table_from (w + 1) ts)"

lemma table_from_nth:
  "table_from w ts \<Longrightarrow> i < length ts \<Longrightarrow> ts ! i = (crc_bit_step ^^ 8) (push_bit 24 (w + of_nat i))"
proof (induction ts arbitrary: w i)
  case Nil
  then show ?case by simp
next
  case (Cons t ts)
  show ?case
  proof (cases i)
    case 0
    with Cons.prems show ?thesis by simp
  next
    case (Suc j)
    with Cons.prems have "ts ! j = (crc_bit_step ^^ 8) (push_bit 24 (w + 1 + of_nat j))"
      using Cons.IH [of "w + 1" j] by simp
    with Suc show ?thesis by (simp add: add.assoc)
  qed
qed

lemma crc32_table_checked: "table_from 0 crc32_table"
  by (simp add: crc32_table_def funpow8 crc_bit_step_def crc_poly_def)

lemma crc32_table_length: "length crc32_table = 256"
  by (simp add: crc32_table_def)

lemma crc32_table_entry:
  fixes w :: u32
  assumes "w \<le> 255"
  shows "crc32_table ! unat w = (crc_bit_step ^^ 8) (push_bit 24 w)"
proof -
  have "unat w < 256" using assms by (simp add: word_le_nat_alt)
  then show ?thesis
    using table_from_nth [OF crc32_table_checked, of "unat w"]
    by (simp add: crc32_table_length)
qed

lemma xor_cancel_poly: "(a XOR p) XOR (b XOR p) = a XOR (b :: u32)"
proof -
  have "(a XOR p) XOR (b XOR p) = (a XOR b) XOR (p XOR p)"
    by (simp only: xor.assoc xor.commute xor.left_commute)
  then show ?thesis by simp
qed

lemma xor_poly_left: "(a XOR p) XOR b = (a XOR b) XOR (p :: u32)"
  by (simp only: xor.assoc xor.commute xor.left_commute)

lemma xor_poly_right: "a XOR (b XOR p) = (a XOR b) XOR (p :: u32)"
  by (simp only: xor.assoc)

lemma crc_bit_step_xor: "crc_bit_step (x XOR y) = crc_bit_step x XOR crc_bit_step y"
proof -
  have b: "bit (x XOR y) 31 = (bit x 31 \<noteq> bit y 31)" by (simp add: bit_xor_iff)
  have p: "push_bit 1 (x XOR y) = push_bit 1 x XOR push_bit 1 y" by (rule push_bit_xor)
  show ?thesis
  proof (cases "bit x 31")
    case True
    note bx = this
    show ?thesis
    proof (cases "bit y 31")
      case True
      with bx show ?thesis
        by (simp only: crc_bit_step_def b p xor_cancel_poly simp_thms if_True if_False)
    next
      case False
      with bx show ?thesis
        by (simp only: crc_bit_step_def b p xor_poly_left simp_thms if_True if_False)
    qed
  next
    case False
    note bx = this
    show ?thesis
    proof (cases "bit y 31")
      case True
      with bx show ?thesis
        by (simp only: crc_bit_step_def b p xor_poly_right simp_thms if_True if_False)
    next
      case False
      with bx show ?thesis
        by (simp only: crc_bit_step_def b p simp_thms if_True if_False)
    qed
  qed
qed

lemma crc_steps_xor:
  "(crc_bit_step ^^ n) (x XOR y) = (crc_bit_step ^^ n) x XOR (crc_bit_step ^^ n) y"
  by (induction n) (simp_all add: crc_bit_step_xor)

lemma crc_steps_low:
  fixes x :: u32
  assumes "k \<le> 8"
  shows "(crc_bit_step ^^ k) (take_bit 24 x) = push_bit k (take_bit 24 x)"
  using assms
proof (induction k)
  case 0
  then show ?case by simp
next
  case (Suc k)
  then have IH: "(crc_bit_step ^^ k) (take_bit 24 x) = push_bit k (take_bit 24 x)" by simp
  have nb: "\<not> bit (push_bit k (take_bit 24 x)) 31"
    using Suc.prems by (auto simp: bit_push_bit_iff bit_take_bit_iff)
  have "(crc_bit_step ^^ Suc k) (take_bit 24 x) = crc_bit_step (push_bit k (take_bit 24 x))"
    by (simp add: IH)
  also have "\<dots> = push_bit 1 (push_bit k (take_bit 24 x))"
    using nb by (simp only: crc_bit_step_def if_False)
  also have "\<dots> = push_bit (Suc k) (take_bit 24 x)"
    by (simp add: ac_simps)
  finally show ?case .
qed

lemma crc_split_top:
  fixes c :: u32
  shows "c XOR push_bit 24 (ucast (b::u8)) =
         push_bit 24 (drop_bit 24 c XOR ucast b) XOR take_bit 24 c"
  by (rule bit_eqI)
     (auto simp: bit_xor_iff bit_push_bit_iff bit_drop_bit_eq bit_take_bit_iff bit_ucast_iff)

lemma crc_index_mask:
  fixes c :: u32
  shows "(drop_bit 24 c XOR ucast (b::u8)) AND mask 8 = drop_bit 24 c XOR ucast b"
  by (rule bit_eqI)
     (auto simp: bit_and_iff bit_xor_iff bit_mask_iff bit_drop_bit_eq bit_ucast_iff
           dest: bit_imp_le_length)

lemma mask8_255: "(255 :: u32) = mask 8"
  by (simp add: mask_eq_exp_minus_1)

lemma crc_index_le:
  fixes c :: u32
  shows "drop_bit 24 c XOR ucast (b::u8) \<le> 255"
proof -
  have "(drop_bit 24 c XOR ucast b) AND mask 8 \<le> (mask 8 :: u32)"
    by (rule word_and_le1)
  then show ?thesis unfolding crc_index_mask mask8_255 .
qed

lemma push8_take24:
  fixes c :: u32
  shows "push_bit 8 (take_bit 24 c) = push_bit 8 c"
  by (rule bit_eqI) (auto simp: bit_push_bit_iff bit_take_bit_iff dest: bit_imp_le_length)

lemma xcrc32_step:
  "push_bit 8 crc XOR crc32_table ! unat ((drop_bit 24 crc XOR ucast b) AND 255) =
   crc_ref_byte crc b"
proof -
  let ?i = "drop_bit 24 crc XOR ucast b"
  have "crc_ref_byte crc b = (crc_bit_step ^^ 8) (push_bit 24 ?i XOR take_bit 24 crc)"
    unfolding crc_ref_byte_def crc_split_top ..
  also have "\<dots> = (crc_bit_step ^^ 8) (push_bit 24 ?i) XOR (crc_bit_step ^^ 8) (take_bit 24 crc)"
    by (rule crc_steps_xor)
  also have "\<dots> = crc32_table ! unat ?i XOR push_bit 8 crc"
    by (simp only: crc32_table_entry [OF crc_index_le] crc_steps_low [OF order_refl] push8_take24)
  finally have "crc_ref_byte crc b = crc32_table ! unat ?i XOR push_bit 8 crc" .
  moreover have "?i AND 255 = ?i"
    unfolding mask8_255 by (rule crc_index_mask)
  ultimately show ?thesis by (simp only: xor.commute)
qed

lemma xcrc32_crc_ref: "xcrc32 buf init = crc_ref buf init"
proof (induction buf arbitrary: init)
  case Nil
  show ?case by simp
next
  case (Cons b buf)
  show ?case by (simp only: xcrc32.simps crc_ref.simps xcrc32_step Cons.IH)
qed


section \<open>RSP binary escaping (m68k-gdbserver.c, rsp_unescape_binary)\<close>

text \<open>
  \<^verbatim>\<open>rsp_unescape_binary(uint8_t *data, size_t len)\<close> decodes in place: a read index and a
  write index walk the same array, and the new length is returned. The model keeps the
  array and both indices; the caller reads the first \<open>write_pos\<close> bytes of the array.
  The byte 0x7d followed by at least one more byte is an escape; a trailing 0x7d is
  copied as it is.
\<close>

function rsp_unescape_loop :: "u8 list \<Rightarrow> nat \<Rightarrow> nat \<Rightarrow> nat \<Rightarrow> u8 list \<times> nat" where
  "rsp_unescape_loop data len read_pos write_pos =
     (if read_pos < len then
        (if data ! read_pos = 0x7d \<and> read_pos + 1 < len
         then rsp_unescape_loop (data[write_pos := data ! (read_pos + 1) XOR 0x20]) len
                (read_pos + 2) (write_pos + 1)
         else rsp_unescape_loop (data[write_pos := data ! read_pos]) len
                (read_pos + 1) (write_pos + 1))
      else (data, write_pos))"
  by pat_completeness auto
termination
  by (relation "measure (\<lambda>(data, len, read_pos, write_pos). len - read_pos)") auto

definition rsp_unescape_binary :: "u8 list \<Rightarrow> nat \<Rightarrow> u8 list \<times> nat" where
  "rsp_unescape_binary data len = rsp_unescape_loop data len 0 0"

text \<open>
  What the caller sees: \<^verbatim>\<open>memcpy(unescaped, bin_data, bin_len);
  actual_len = rsp_unescape_binary(unescaped, bin_len)\<close>, then the first
  \<open>actual_len\<close> bytes of the buffer.
\<close>

definition rsp_unescaped :: "u8 list \<Rightarrow> u8 list" where
  "rsp_unescaped bin =
     (case rsp_unescape_binary bin (length bin) of (data, n) \<Rightarrow> take n data)"

text \<open>
  Modelled from the spec: the source has no encoder (the server never emits binary
  payloads). The spec's escape: each byte in {0x23, 0x24, 0x2A, 0x7D} is replaced by 0x7D
  followed by the byte xor 0x20; every other byte is sent as it is.
\<close>

definition rsp_special :: "u8 \<Rightarrow> bool" where
  "rsp_special b = (b = 0x23 \<or> b = 0x24 \<or> b = 0x2a \<or> b = 0x7d)"

fun rsp_escape :: "u8 list \<Rightarrow> u8 list" where
  "rsp_escape [] = []"
| "rsp_escape (b # bs) =
     (if rsp_special b then 0x7d # (b XOR 0x20) # rsp_escape bs else b # rsp_escape bs)"

text \<open>The decoder as a function on the byte stream, used to reason about the loop.\<close>

fun unescape_stream :: "u8 list \<Rightarrow> u8 list" where
  "unescape_stream [] = []"
| "unescape_stream [x] = [x]"
| "unescape_stream (x # y # r) =
     (if x = 0x7d then (y XOR 0x20) # unescape_stream r else x # unescape_stream (y # r))"

declare rsp_unescape_loop.simps [simp del]

lemma drop_one: "i < length xs \<Longrightarrow> drop i xs = xs ! i # drop (i + 1) xs"
  using Cons_nth_drop_Suc [of i xs] by simp

lemma drop_two: "i + 1 < length xs \<Longrightarrow> drop i xs = xs ! i # xs ! (i + 1) # drop (i + 2) xs"
  using drop_one [of i xs] drop_one [of "i + 1" xs] by simp

lemma rsp_unescape_loop_stream:
  "write_pos \<le> read_pos \<Longrightarrow> read_pos \<le> len \<Longrightarrow> len = length data \<Longrightarrow>
   rsp_unescape_loop data len read_pos write_pos = (d, n) \<Longrightarrow>
   take n d = take write_pos data @ unescape_stream (drop read_pos data)"
proof (induction data len read_pos write_pos arbitrary: d n rule: rsp_unescape_loop.induct)
  case (1 data len read_pos write_pos)
  show ?case
  proof (cases "read_pos < len")
    case False
    then have "rsp_unescape_loop data len read_pos write_pos = (data, write_pos)"
      by (simp add: rsp_unescape_loop.simps [of data len read_pos write_pos])
    with "1.prems" False show ?thesis by simp
  next
    case True
    note lt = this
    have wlt: "write_pos < length data" using lt "1.prems" by simp
    show ?thesis
    proof (cases "data ! read_pos = 0x7d \<and> read_pos + 1 < len")
      case True
      let ?v = "data ! (read_pos + 1) XOR 0x20"
      let ?data' = "data[write_pos := ?v]"
      have run: "rsp_unescape_loop ?data' len (read_pos + 2) (write_pos + 1) = (d, n)"
        using "1.prems"(4) lt True
        by (auto simp: rsp_unescape_loop.simps [of data len read_pos write_pos] split: if_splits)
      have "take n d = take (write_pos + 1) ?data' @ unescape_stream (drop (read_pos + 2) ?data')"
        using "1.IH"(1) [OF lt True _ _ _ run] "1.prems" True by simp
      moreover have "take (write_pos + 1) ?data' = take write_pos data @ [?v]"
        using wlt by (simp add: take_Suc_conv_app_nth)
      moreover have "drop (read_pos + 2) ?data' = drop (read_pos + 2) data"
        using "1.prems"(1) by simp
      moreover have "drop read_pos data = data ! read_pos # data ! (read_pos + 1) # drop (read_pos + 2) data"
        using True "1.prems"(3) drop_two [of read_pos data] by simp
      ultimately show ?thesis using True by simp
    next
      case False
      let ?v = "data ! read_pos"
      let ?data' = "data[write_pos := ?v]"
      have run: "rsp_unescape_loop ?data' len (read_pos + 1) (write_pos + 1) = (d, n)"
        using "1.prems"(4) lt False
        by (auto simp: rsp_unescape_loop.simps [of data len read_pos write_pos] split: if_splits)
      have "take n d = take (write_pos + 1) ?data' @ unescape_stream (drop (read_pos + 1) ?data')"
        using "1.IH"(2) [OF lt False _ _ _ run] "1.prems" lt by simp
      moreover have "take (write_pos + 1) ?data' = take write_pos data @ [?v]"
        using wlt by (simp add: take_Suc_conv_app_nth)
      moreover have "drop (read_pos + 1) ?data' = drop (read_pos + 1) data"
        using "1.prems"(1) by simp
      moreover have "unescape_stream (drop read_pos data) = ?v # unescape_stream (drop (read_pos + 1) data)"
      proof (cases "read_pos + 1 < len")
        case True
        then have "drop read_pos data = ?v # data ! (read_pos + 1) # drop (read_pos + 2) data"
          using "1.prems"(3) drop_two [of read_pos data] by simp
        moreover have "drop (read_pos + 1) data = data ! (read_pos + 1) # drop (read_pos + 2) data"
          using True "1.prems"(3) drop_one [of "read_pos + 1" data] by simp
        ultimately show ?thesis using False True by simp
      next
        case False
        then have "drop read_pos data = [?v]"
          using lt "1.prems"(3) drop_one [of read_pos data] by simp
        moreover have "drop (read_pos + 1) data = []"
          using False "1.prems"(3) by simp
        ultimately show ?thesis by simp
      qed
      ultimately show ?thesis by simp
    qed
  qed
qed

lemma rsp_unescaped_stream: "rsp_unescaped bin = unescape_stream bin"
proof -
  obtain d n where r: "rsp_unescape_loop bin (length bin) 0 0 = (d, n)"
    by (cases "rsp_unescape_loop bin (length bin) 0 0")
  from rsp_unescape_loop_stream [OF _ _ _ r] have "take n d = unescape_stream bin" by simp
  with r show ?thesis by (simp add: rsp_unescaped_def rsp_unescape_binary_def)
qed

lemma unescape_stream_plain: "x \<noteq> 0x7d \<Longrightarrow> unescape_stream (x # xs) = x # unescape_stream xs"
  by (cases xs) simp_all

lemma xor_0x20_twice: "(b XOR 0x20) XOR 0x20 = (b :: u8)"
  by (simp add: xor.assoc)

lemma unescape_stream_escape: "unescape_stream (rsp_escape b) = b"
  by (induction b) (auto simp: unescape_stream_plain rsp_special_def xor_0x20_twice)

text \<open>
  Claim C8. For every byte array \<open>b\<close>, decoding the RSP binary escape of \<open>b\<close> with the
  in-place decoder of the code gives \<open>b\<close> back: the decoder returns a length and the
  first that many bytes of the buffer are exactly \<open>b\<close>.
\<close>

theorem C8_unescape_escape: "rsp_unescaped (rsp_escape b) = b"
  by (simp add: rsp_unescaped_stream unescape_stream_escape)


section \<open>The USB channel and the persistent command buffer (openlink_protocol.c)\<close>

text \<open>
  The pod is the environment. A \<open>device\<close> says how the k-th OUT transfer ends, what the
  k-th IN transfer delivers (it may depend on the last request the host sent), and what an
  uninitialised local buffer holds when the k-th IN transfer is received into it. The
  theorems hold for every device. A \<open>pod\<close> is the host's side: the global
  \<^verbatim>\<open>g_cmd_buffer[256]\<close>, the requests that left on the OUT endpoint (oldest first), and
  the number of OUT and IN transfers made so far.
\<close>

datatype libusb_error =
  LIBUSB_ERROR_IO | LIBUSB_ERROR_NO_DEVICE | LIBUSB_ERROR_TIMEOUT
| LIBUSB_ERROR_OVERFLOW | LIBUSB_ERROR_PIPE | LIBUSB_ERROR_OTHER

record device =
  dev_out :: "nat \<Rightarrow> libusb_error option"
  dev_in :: "nat \<Rightarrow> u8 list \<Rightarrow> libusb_error + u8 list"
  stack_junk :: "nat \<Rightarrow> nat \<Rightarrow> u8"

record pod =
  g_cmd_buffer :: "u8 list"
  sent :: "u8 list list"
  n_out :: nat
  n_in :: nat

definition last_request :: "pod \<Rightarrow> u8 list" where
  "last_request s = (if sent s = [] then [] else last (sent s))"

text \<open>
  \<^verbatim>\<open>libusb_bulk_transfer(handle, ENDPOINT_OUT, data, n, ...)\<close>: the result is
  \<open>True\<close> when libusb returns 0, and then the request is on the wire.
\<close>

definition bulk_out :: "device \<Rightarrow> u8 list \<Rightarrow> pod \<Rightarrow> bool \<times> pod" where
  "bulk_out dev data s =
     (case dev_out dev (n_out s) of
        None \<Rightarrow> (True, s\<lparr>sent := sent s @ [data], n_out := n_out s + 1\<rparr>)
      | Some e \<Rightarrow> (False, s\<lparr>n_out := n_out s + 1\<rparr>))"

text \<open>
  \<^verbatim>\<open>libusb_bulk_transfer(handle, ENDPOINT_IN, buf, cap, &n, timeout)\<close>: an error, or at
  most \<open>cap\<close> bytes. A device that sends more than \<open>cap\<close> bytes makes libusb report
  an overflow.
\<close>

definition bulk_in :: "device \<Rightarrow> nat \<Rightarrow> pod \<Rightarrow> (libusb_error + u8 list) \<times> pod" where
  "bulk_in dev cap s =
     ((case dev_in dev (n_in s) (last_request s) of
         Inl e \<Rightarrow> Inl e
       | Inr d \<Rightarrow> if cap < length d then Inl LIBUSB_ERROR_OVERFLOW else Inr d),
      s\<lparr>n_in := n_in s + 1\<rparr>)"

definition uninit_buffer :: "device \<Rightarrow> nat \<Rightarrow> nat \<Rightarrow> u8 list" where
  "uninit_buffer dev k n = map (stack_junk dev k) [0..<n]"

text \<open>Bytes received (or copied) into a buffer at an offset; the rest of the buffer stays.\<close>

definition store_at :: "u8 list \<Rightarrow> nat \<Rightarrow> u8 list \<Rightarrow> u8 list" where
  "store_at buf off d = take off buf @ d @ drop (off + length d) buf"

text \<open>
  \<^verbatim>\<open>send_aa_command(handle, cmd_data, cmd_len, name)\<close>, always called with
  \<open>cmd_data = g_cmd_buffer\<close>. It sends the buffer, then receives up to 256 bytes into
  an uninitialised local \<^verbatim>\<open>response_buffer[256]\<close> with a 10 s timeout, returns -1 when
  either transfer fails, and otherwise copies all 256 bytes of the local buffer over the
  command buffer.
\<close>

definition send_aa_command :: "device \<Rightarrow> nat \<Rightarrow> pod \<Rightarrow> int \<times> pod" where
  "send_aa_command dev cmd_len s =
     (case bulk_out dev (take cmd_len (g_cmd_buffer s)) s of
        (False, s1) \<Rightarrow> (- 1, s1)
      | (True, s1) \<Rightarrow>
          (case bulk_in dev 256 s1 of
             (Inl e, s2) \<Rightarrow> (- 1, s2)
           | (Inr d, s2) \<Rightarrow>
               (0, s2\<lparr>g_cmd_buffer :=
                       store_at (g_cmd_buffer s2) 0
                         (store_at (uninit_buffer dev (n_in s1) 256) 0 d)\<rparr>)))"

text \<open>
  \<^verbatim>\<open>validate_response(buffer, length, min_length, &response_type)\<close>. The buffer is the
  256-byte command buffer, so the reads at 0, 1 and 4 are in range whatever
  \<open>length\<close> is.
\<close>

definition validate_response :: "u8 list \<Rightarrow> int \<Rightarrow> int \<Rightarrow> int \<times> u16 option" where
  "validate_response buffer len min_length =
     (if len < min_length then (- 1, None)
      else if buffer ! 0 = 0x99 \<and> buffer ! 1 = 0x66 \<and> 5 \<le> len \<and> buffer ! 4 = 0xee
        then (0, Some 0x9966)
      else if buffer ! 0 = 0x99 \<and> buffer ! 1 = 0x66 \<and> 5 \<le> len then (- 1, None)
      else if buffer ! 0 = 0x88 \<and> buffer ! 1 = 0xa5 \<and> 5 \<le> len \<and> buffer ! 4 = 0xee
        then (0, Some 0x88a5)
      else (- 1, None))"

text \<open>\<^verbatim>\<open>(v >> sh) & 0xFF\<close> stored into an \<^verbatim>\<open>unsigned char\<close>.\<close>

definition byte_of :: "u32 \<Rightarrow> nat \<Rightarrow> u8" where
  "byte_of v sh = ucast (drop_bit sh v AND 0xFF)"

definition byte_of16 :: "u16 \<Rightarrow> nat \<Rightarrow> u8" where
  "byte_of16 v sh = ucast (drop_bit sh v AND 0xFF)"

subsection \<open>Commands that write a header only\<close>

definition cmd_enter_mode_request :: "u8 \<Rightarrow> u8 list \<Rightarrow> u8 list" where
  "cmd_enter_mode_request mode cmd =
     cmd[0 := 0xaa, 1 := 0x55, 2 := 0x00, 3 := 0x03, 4 := 0x07, 5 := 0x01, 6 := mode]"

definition cmd_enter_mode :: "device \<Rightarrow> u8 \<Rightarrow> pod \<Rightarrow> int \<times> pod" where
  "cmd_enter_mode dev mode s =
     send_aa_command dev 256 (s\<lparr>g_cmd_buffer := cmd_enter_mode_request mode (g_cmd_buffer s)\<rparr>)"

definition cmd_07_02_bdm_go_request :: "u8 list \<Rightarrow> u8 list" where
  "cmd_07_02_bdm_go_request cmd =
     cmd[0 := 0xaa, 1 := 0x55, 2 := 0x00, 3 := 0x05, 4 := 0x07, 5 := 0x02, 6 := 0xfc,
         7 := 0x0c, 8 := 0x00]"

definition cmd_07_02_bdm_go :: "device \<Rightarrow> pod \<Rightarrow> int \<times> pod" where
  "cmd_07_02_bdm_go dev s =
     send_aa_command dev 256 (s\<lparr>g_cmd_buffer := cmd_07_02_bdm_go_request (g_cmd_buffer s)\<rparr>)"

definition cmd_07_14_write_bdm_reg_request :: "u16 \<Rightarrow> u32 \<Rightarrow> u8 list \<Rightarrow> u8 list" where
  "cmd_07_14_write_bdm_reg_request reg val cmd =
     cmd[0 := 0xaa, 1 := 0x55, 2 := 0x00, 3 := 0x0c, 4 := 0x07, 5 := 0x14,
         6 := 0x28, 7 := 0x80, 8 := 0x00, 9 := 0x00,
         10 := byte_of16 reg 8, 11 := byte_of16 reg 0,
         12 := byte_of val 24, 13 := byte_of val 16, 14 := byte_of val 8, 15 := byte_of val 0]"

definition cmd_07_14_write_bdm_reg :: "device \<Rightarrow> u16 \<Rightarrow> u32 \<Rightarrow> pod \<Rightarrow> int \<times> pod" where
  "cmd_07_14_write_bdm_reg dev reg val s =
     send_aa_command dev 256
       (s\<lparr>g_cmd_buffer := cmd_07_14_write_bdm_reg_request reg val (g_cmd_buffer s)\<rparr>)"

definition cmd_bdm_halt_request :: "u8 list \<Rightarrow> u8 list" where
  "cmd_bdm_halt_request cmd =
     cmd[0 := 0xaa, 1 := 0x55, 2 := 0x00, 3 := 0x04, 4 := 0x04, 5 := 0x40, 6 := 0x00, 7 := 0x01]"

definition cmd_bdm_halt :: "device \<Rightarrow> pod \<Rightarrow> int \<times> pod" where
  "cmd_bdm_halt dev s =
     send_aa_command dev 256 (s\<lparr>g_cmd_buffer := cmd_bdm_halt_request (g_cmd_buffer s)\<rparr>)"

text \<open>
  \<^verbatim>\<open>cmd_bdm_freeze(handle, &is_frozen)\<close> makes its own transfers: the response is
  received straight into the command buffer with a 500 ms timeout, a timeout is answered
  with \<open>*is_frozen = 0\<close> and return value 0, and any other receive error with -1.
  The out-parameter is passed in and returned: a path that does not assign it returns the
  caller's value.
\<close>

definition cmd_bdm_freeze_request :: "u8 list \<Rightarrow> u8 list" where
  "cmd_bdm_freeze_request cmd =
     cmd[0 := 0xaa, 1 := 0x55, 2 := 0x00, 3 := 0x04, 4 := 0x04, 5 := 0x7f, 6 := 0xfe, 7 := 0x02]"

definition cmd_bdm_freeze :: "device \<Rightarrow> u8 \<Rightarrow> pod \<Rightarrow> int \<times> u8 \<times> pod" where
  "cmd_bdm_freeze dev is_frozen s =
     (let s0 = s\<lparr>g_cmd_buffer := cmd_bdm_freeze_request (g_cmd_buffer s)\<rparr> in
      case bulk_out dev (take 256 (g_cmd_buffer s0)) s0 of
        (False, s1) \<Rightarrow> (- 1, is_frozen, s1)
      | (True, s1) \<Rightarrow>
          (case bulk_in dev 256 s1 of
             (Inl e, s2) \<Rightarrow>
               if e = LIBUSB_ERROR_TIMEOUT then (0, 0, s2) else (- 1, is_frozen, s2)
           | (Inr d, s2) \<Rightarrow>
               (let s3 = s2\<lparr>g_cmd_buffer := store_at (g_cmd_buffer s2) 0 d\<rparr>;
                    actual_response_len = int (length d)
                in if fst (validate_response (g_cmd_buffer s3) actual_response_len 5) \<noteq> 0
                   then (- 1, is_frozen, s3)
                   else if 6 \<le> actual_response_len
                   then (let status = g_cmd_buffer s3 ! 5
                         in if status = 0x01 \<or> status = 0x00 then (0, 1, s3) else (0, 0, s3))
                   else (0, 0, s3))))"

subsection \<open>Commands that write their own padding\<close>

text \<open>
  \<^verbatim>\<open>for (int i = 6; i < 256; i += 2) { cmd[i] = hi; if (i+1 < 256) cmd[i+1] = lo; }\<close>
\<close>

function pad_pairs :: "nat \<Rightarrow> u8 \<Rightarrow> u8 \<Rightarrow> u8 list \<Rightarrow> u8 list" where
  "pad_pairs i hi lo cmd =
     (if i < 256
      then pad_pairs (i + 2) hi lo (if i + 1 < 256 then cmd[i := hi, i + 1 := lo] else cmd[i := hi])
      else cmd)"
  by pat_completeness auto
termination
  by (relation "measure (\<lambda>(i, hi, lo, cmd). 256 - i)") auto

definition cmd_07_12_request :: "u16 \<Rightarrow> u8 list \<Rightarrow> u8 list" where
  "cmd_07_12_request param cmd =
     pad_pairs 6 (byte_of16 param 8) (byte_of16 param 0)
       (cmd[0 := 0xaa, 1 := 0x55, 2 := 0x00, 3 := 0x02, 4 := 0x07, 5 := 0x12])"

definition cmd_07_12 :: "device \<Rightarrow> u16 \<Rightarrow> pod \<Rightarrow> int \<times> pod" where
  "cmd_07_12 dev param s =
     send_aa_command dev 256 (s\<lparr>g_cmd_buffer := cmd_07_12_request param (g_cmd_buffer s)\<rparr>)"

text \<open>
  \<^verbatim>\<open>cmd_07_19\<close>: \<^verbatim>\<open>memset(cmd, 0x00, 256)\<close>, then
  \<^verbatim>\<open>for (int i = 16; i < 256; i += 6) { cmd[i] = 0x02; cmd[i+5] = 0x02; }\<close>, then the
  sixteen header, address and data bytes, then \<^verbatim>\<open>send_aa_command\<close>.
\<close>

function pad_0719 :: "nat \<Rightarrow> u8 list \<Rightarrow> u8 list" where
  "pad_0719 i cmd = (if i < 256 then pad_0719 (i + 6) (cmd[i := 0x02, i + 5 := 0x02]) else cmd)"
  by pat_completeness auto
termination
  by (relation "measure (\<lambda>(i, cmd). 256 - i)") auto

definition memset_256 :: "u8 \<Rightarrow> u8 list \<Rightarrow> u8 list" where
  "memset_256 v cmd = store_at cmd 0 (replicate 256 v)"

definition cmd_07_19_request :: "u32 \<Rightarrow> u32 \<Rightarrow> u8 list \<Rightarrow> u8 list" where
  "cmd_07_19_request addr data cmd =
     (pad_0719 16 (memset_256 0x00 cmd))
       [0 := 0xaa, 1 := 0x55, 2 := 0x00, 3 := 0x0C, 4 := 0x07, 5 := 0x19, 6 := 0x00, 7 := 0x04,
        8 := byte_of addr 24, 9 := byte_of addr 16, 10 := byte_of addr 8, 11 := byte_of addr 0,
        12 := byte_of data 24, 13 := byte_of data 16, 14 := byte_of data 8, 15 := byte_of data 0]"

definition cmd_07_19 :: "device \<Rightarrow> u32 \<Rightarrow> u32 \<Rightarrow> pod \<Rightarrow> int \<times> pod" where
  "cmd_07_19 dev addr data s =
     send_aa_command dev 256 (s\<lparr>g_cmd_buffer := cmd_07_19_request addr data (g_cmd_buffer s)\<rparr>)"


subsection \<open>Concrete pods used to exercise the theorems\<close>

text \<open>
  The state at program start (\<^verbatim>\<open>g_cmd_buffer[256] = {0}\<close>, nothing sent), a pod that
  never answers, a pod that acknowledges every request with a five-byte standard frame
  (the rest of the host's receive buffer then holds whatever the stack held, here 0xab),
  and a pod whose answer to the freeze check carries status 0x01.
\<close>

definition pod_init :: pod where
  "pod_init = \<lparr>g_cmd_buffer = replicate 256 0x00, sent = [], n_out = 0, n_in = 0\<rparr>"

definition quiet_device :: device where
  "quiet_device = \<lparr>dev_out = (\<lambda>k. None), dev_in = (\<lambda>k req. Inl LIBUSB_ERROR_TIMEOUT),
                    stack_junk = (\<lambda>k i. 0x00)\<rparr>"

definition ack_device :: device where
  "ack_device = \<lparr>dev_out = (\<lambda>k. None), dev_in = (\<lambda>k req. Inr [0x99, 0x66, 0x00, 0x01, 0xee]),
                  stack_junk = (\<lambda>k i. 0xab)\<rparr>"

definition halted_device :: device where
  "halted_device = \<lparr>dev_out = (\<lambda>k. None),
                     dev_in = (\<lambda>k req. Inr [0x99, 0x66, 0x00, 0x03, 0xee, 0x01, 0x00]),
                     stack_junk = (\<lambda>k i. 0x00)\<rparr>"


subsection \<open>The padding of the 0x0719 writer\<close>

declare pad_0719.simps [simp del]
declare pad_pairs.simps [simp del]

lemma pad_0719_length: "length (pad_0719 i cmd) = length cmd"
proof (induction i cmd rule: pad_0719.induct)
  case (1 i cmd)
  then show ?case by (simp add: pad_0719.simps [of i cmd])
qed

lemma pad_0719_arith: "((i::nat) \<le> j \<and> ((j - i) mod 6 = 0 \<or> (j - i) mod 6 = 5)) =
              ((i + 6 \<le> j \<and> ((j - (i + 6)) mod 6 = 0 \<or> (j - (i + 6)) mod 6 = 5)) \<or> j = i \<or> j = i + 5)"
proof (cases "i + 6 \<le> j")
  case True
  then have "j - i = (j - (i + 6)) + 6" by simp
  then have "(j - i) mod 6 = (j - (i + 6)) mod 6" by (metis mod_add_self2)
  with True show ?thesis by auto
next
  case False
  show ?thesis
  proof (cases "i \<le> j")
    case True
    with False have "j - i < 6" by simp
    then have "(j - i) mod 6 = j - i" by simp
    with True False show ?thesis by auto
  next
    case False
    then show ?thesis by auto
  qed
qed


lemma pad_0719_nth:
  "j < length cmd \<Longrightarrow> j < 256 \<Longrightarrow>
   pad_0719 i cmd ! j =
     (if i \<le> j \<and> ((j - i) mod 6 = 0 \<or> (j - i) mod 6 = 5) then 0x02 else cmd ! j)"
proof (induction i cmd rule: pad_0719.induct)
  case (1 i cmd)
  show ?case
  proof (cases "i < 256")
    case False
    then have "pad_0719 i cmd = cmd" by (simp add: pad_0719.simps [of i cmd])
    with False "1.prems" show ?thesis by simp
  next
    case True
    let ?c = "cmd[i := 0x02, i + 5 := 0x02]"
    have unf: "pad_0719 i cmd = pad_0719 (i + 6) ?c"
      using True by (simp add: pad_0719.simps [of i cmd])
    have ih: "pad_0719 (i + 6) ?c ! j =
        (if i + 6 \<le> j \<and> ((j - (i + 6)) mod 6 = 0 \<or> (j - (i + 6)) mod 6 = 5) then 0x02 else ?c ! j)"
      using "1.IH" [OF True] "1.prems" by simp
    have cj: "?c ! j = (if j = i \<or> j = i + 5 then 0x02 else cmd ! j)"
      using "1.prems" by (auto simp: nth_list_update)
    show ?thesis unfolding unf ih cj pad_0719_arith [of i j] by auto
  qed
qed

lemma memset_256_length: "256 \<le> length (memset_256 v cmd)"
  by (simp add: memset_256_def store_at_def)

lemma memset_256_nth: "j < 256 \<Longrightarrow> memset_256 v cmd ! j = v"
  by (simp add: memset_256_def store_at_def nth_append)

lemma cmd_07_19_request_padding:
  assumes "16 \<le> j" "j < 256"
  shows "cmd_07_19_request addr data cmd ! j =
         (if (j - 16) mod 6 = 0 \<or> (j - 16) mod 6 = 5 then 0x02 else 0x00)"
proof -
  have len: "j < length (memset_256 0x00 cmd)"
    using assms memset_256_length [of 0 cmd] by simp
  have "cmd_07_19_request addr data cmd ! j = pad_0719 16 (memset_256 0x00 cmd) ! j"
    using assms by (simp add: cmd_07_19_request_def)
  also have "\<dots> = (if 16 \<le> j \<and> ((j - 16) mod 6 = 0 \<or> (j - 16) mod 6 = 5) then 0x02
                     else memset_256 0x00 cmd ! j)"
    using pad_0719_nth [OF len assms(2)] .
  finally show ?thesis using assms by (simp add: memset_256_nth)
qed

lemma cmd_07_19_request_length: "256 \<le> length (cmd_07_19_request addr data cmd)"
  using memset_256_length [of 0 cmd] by (simp add: cmd_07_19_request_def pad_0719_length)

lemma send_aa_command_sent:
  "dev_out dev (n_out s) = None \<Longrightarrow>
   last_request (snd (send_aa_command dev n s)) = take n (g_cmd_buffer s)"
  by (simp add: send_aa_command_def bulk_out_def bulk_in_def last_request_def
           split: sum.splits prod.splits)


text \<open>
  Claim C3. Every request that \<^verbatim>\<open>cmd_07_19\<close> puts on the OUT endpoint has, at every
  index \<open>j\<close> from 16 to 255, the byte 0x02 when \<open>(j - 16) mod 6\<close> is 0 or 5 and
  the byte 0x00 otherwise, whatever the address, the data and the previous contents of the
  command buffer.
\<close>

theorem C3_cmd_07_19_padding:
  assumes "dev_out dev (n_out s) = None" and "16 \<le> j" and "j < 256"
  shows "last_request (snd (cmd_07_19 dev addr data s)) ! j =
         (if (j - 16) mod 6 = 0 \<or> (j - 16) mod 6 = 5 then 0x02 else 0x00)"
proof -
  have "last_request (snd (cmd_07_19 dev addr data s)) =
        take 256 (cmd_07_19_request addr data (g_cmd_buffer s))"
    using assms(1) by (simp add: cmd_07_19_def send_aa_command_sent)
  then show ?thesis
    using assms cmd_07_19_request_padding [of j addr data "g_cmd_buffer s"] by simp
qed


theorem C3_cmd_07_19_padding_witness:
  "last_request (snd (cmd_07_19 ack_device 0x20000100 0xcafebabe pod_init)) ! 21 = 0x02 \<and>
   last_request (snd (cmd_07_19 ack_device 0x20000100 0xcafebabe pod_init)) ! 23 = 0x00"
proof -
  have a: "dev_out ack_device (n_out pod_init) = None"
    by (simp add: ack_device_def)
  show ?thesis
    using C3_cmd_07_19_padding [OF a, of 21 "0x20000100" "0xcafebabe"]
          C3_cmd_07_19_padding [OF a, of 23 "0x20000100" "0xcafebabe"]
    by simp
qed

subsection \<open>The freeze check\<close>

lemma store_at_nth_low: "j < length d \<Longrightarrow> store_at buf 0 d ! j = d ! j"
  by (simp add: store_at_def nth_append)

lemma validate_response_received:
  "5 \<le> length d \<Longrightarrow>
   validate_response (store_at buf 0 d) (int (length d)) 5 = validate_response d (int (length d)) 5"
proof -
  assume len: "5 \<le> length d"
  then have "d \<noteq> []" by auto
  then have "store_at buf 0 d ! 0 = d ! 0"
    by (simp add: store_at_def nth_append)
  moreover have "store_at buf 0 d ! 1 = d ! 1" "store_at buf 0 d ! 4 = d ! 4"
    using len by (simp_all add: store_at_nth_low)
  ultimately show ?thesis by (simp add: validate_response_def)
qed


text \<open>
  Claim C5. When the freeze-check request goes out and the pod's response passes
  \<^verbatim>\<open>validate_response\<close> and carries a status byte at offset 5, the command returns 0
  and reports the target halted exactly when that byte is 0x00 or 0x01 (0x88 and every
  other value report it running). When the IN transfer times out, the command returns 0
  (no error) and reports the target not frozen.
\<close>

theorem C5_cmd_bdm_freeze:
  assumes "dev_out dev (n_out s) = None"
  shows "(dev_in dev (n_in s) (take 256 (cmd_bdm_freeze_request (g_cmd_buffer s))) = Inr d \<and>
          length d \<le> 256 \<and> fst (validate_response d (int (length d)) 5) = 0 \<and> 6 \<le> length d
          \<longrightarrow> fst (cmd_bdm_freeze dev f s) = 0 \<and>
              fst (snd (cmd_bdm_freeze dev f s)) = (if d ! 5 = 0x00 \<or> d ! 5 = 0x01 then 1 else 0)) \<and>
         (dev_in dev (n_in s) (take 256 (cmd_bdm_freeze_request (g_cmd_buffer s))) =
            Inl LIBUSB_ERROR_TIMEOUT
          \<longrightarrow> fst (cmd_bdm_freeze dev f s) = 0 \<and> fst (snd (cmd_bdm_freeze dev f s)) = 0)"
proof (intro conjI impI)
  assume h: "dev_in dev (n_in s) (take 256 (cmd_bdm_freeze_request (g_cmd_buffer s))) = Inr d \<and>
          length d \<le> 256 \<and> fst (validate_response d (int (length d)) 5) = 0 \<and> 6 \<le> length d"
  then have v: "fst (validate_response (store_at buf 0 d) (int (length d)) 5) = 0" for buf
    by (simp add: validate_response_received)
  have n5: "store_at buf 0 d ! 5 = d ! 5" for buf
    using h by (simp add: store_at_nth_low)
  show "fst (cmd_bdm_freeze dev f s) = 0"
    using assms h v
    by (simp add: cmd_bdm_freeze_def bulk_out_def bulk_in_def last_request_def Let_def)
  show "fst (snd (cmd_bdm_freeze dev f s)) = (if d ! 5 = 0x00 \<or> d ! 5 = 0x01 then 1 else 0)"
    using assms h v n5
    by (simp add: cmd_bdm_freeze_def bulk_out_def bulk_in_def last_request_def Let_def)
next
  assume h: "dev_in dev (n_in s) (take 256 (cmd_bdm_freeze_request (g_cmd_buffer s))) =
            Inl LIBUSB_ERROR_TIMEOUT"
  show "fst (cmd_bdm_freeze dev f s) = 0"
    using assms h
    by (simp add: cmd_bdm_freeze_def bulk_out_def bulk_in_def last_request_def Let_def)
  show "fst (snd (cmd_bdm_freeze dev f s)) = 0"
    using assms h
    by (simp add: cmd_bdm_freeze_def bulk_out_def bulk_in_def last_request_def Let_def)
qed

theorem C5_cmd_bdm_freeze_witness:
  "(fst (cmd_bdm_freeze halted_device 0 pod_init) = 0 \<and>
    fst (snd (cmd_bdm_freeze halted_device 0 pod_init)) = 1) \<and>
   (fst (cmd_bdm_freeze quiet_device 1 pod_init) = 0 \<and>
    fst (snd (cmd_bdm_freeze quiet_device 1 pod_init)) = 0)"
proof -
  have a: "dev_out halted_device (n_out pod_init) = None"
    by (simp add: halted_device_def)
  have b: "dev_in halted_device (n_in pod_init)
             (take 256 (cmd_bdm_freeze_request (g_cmd_buffer pod_init))) =
           Inr [0x99, 0x66, 0x00, 0x03, 0xee, 0x01, 0x00] \<and>
           length [0x99, 0x66, 0x00, 0x03, 0xee, 0x01, 0x00 :: u8] \<le> 256 \<and>
           fst (validate_response [0x99, 0x66, 0x00, 0x03, 0xee, 0x01, 0x00]
                  (int (length [0x99, 0x66, 0x00, 0x03, 0xee, 0x01, 0x00 :: u8])) 5) = 0 \<and>
           6 \<le> length [0x99, 0x66, 0x00, 0x03, 0xee, 0x01, 0x00 :: u8]"
    by (simp add: halted_device_def validate_response_def)
  have c: "dev_out quiet_device (n_out pod_init) = None"
    by (simp add: quiet_device_def)
  have d: "dev_in quiet_device (n_in pod_init)
             (take 256 (cmd_bdm_freeze_request (g_cmd_buffer pod_init))) = Inl LIBUSB_ERROR_TIMEOUT"
    by (simp add: quiet_device_def)
  from C5_cmd_bdm_freeze [OF a, of "[0x99, 0x66, 0x00, 0x03, 0xee, 0x01, 0x00]" 0] b
    C5_cmd_bdm_freeze [OF c, of "[]" 1] d
  show ?thesis by simp
qed


subsection \<open>BDM GO\<close>









section \<open>C library functions the packet handlers call\<close>

text \<open>
  Packet data reaches a handler as a NUL-terminated copy of the packet; the string
  functions see it up to the first NUL. \<^verbatim>\<open>strchr\<close> returns the suffix that starts at
  the character sought. \<^verbatim>\<open>strtoul(s, NULL, 16)\<close> follows the C standard: leading white
  space, an optional sign, an optional \<^verbatim>\<open>0x\<close> before a hex digit, then the longest run of
  hex digits (none gives 0); the value saturates at \<^verbatim>\<open>ULONG_MAX\<close> and a minus sign
  negates it as an \<^verbatim>\<open>unsigned long\<close>, taken as 64 bits wide. Assigning the result to a
  \<^verbatim>\<open>uint32_t\<close> keeps the low 32 bits.
\<close>

definition c_str :: "string \<Rightarrow> string" where
  "c_str s = takeWhile (\<lambda>c. c \<noteq> CHR 0x00) s"

definition strchr :: "string \<Rightarrow> char \<Rightarrow> string option" where
  "strchr s c = (case dropWhile (\<lambda>x. x \<noteq> c) (c_str s) of [] \<Rightarrow> None | x # r \<Rightarrow> Some (x # r))"

definition isspace_c :: "char \<Rightarrow> bool" where
  "isspace_c c =
     (c = CHR 0x20 \<or> c = CHR 0x09 \<or> c = CHR 0x0A \<or> c = CHR 0x0B \<or> c = CHR 0x0C \<or> c = CHR 0x0D)"

definition hex_digit_val :: "char \<Rightarrow> nat option" where
  "hex_digit_val c =
     (let n = (of_char c :: nat)
      in if 48 \<le> n \<and> n \<le> 57 then Some (n - 48)
         else if 97 \<le> n \<and> n \<le> 102 then Some (n - 87)
         else if 65 \<le> n \<and> n \<le> 70 then Some (n - 55)
         else None)"

fun strtoul_digits :: "nat \<Rightarrow> string \<Rightarrow> nat" where
  "strtoul_digits acc [] = acc"
| "strtoul_digits acc (c # cs) =
     (case hex_digit_val c of None \<Rightarrow> acc | Some d \<Rightarrow> strtoul_digits (acc * 16 + d) cs)"

definition strtoul_16 :: "string \<Rightarrow> nat" where
  "strtoul_16 str =
     (let s1 = dropWhile isspace_c str;
          neg = (case s1 of [] \<Rightarrow> False | c # r \<Rightarrow> c = CHR ''-'');
          s2 = (case s1 of [] \<Rightarrow> s1 | c # r \<Rightarrow> if c = CHR ''-'' \<or> c = CHR ''+'' then r else s1);
          s3 = (case s2 of
                  z # x # d # r \<Rightarrow>
                    if z = CHR ''0'' \<and> (x = CHR ''x'' \<or> x = CHR ''X'') \<and> hex_digit_val d \<noteq> None
                    then d # r else s2
                | _ \<Rightarrow> s2);
          v = strtoul_digits 0 s3
      in if 2 ^ 64 \<le> v then 2 ^ 64 - 1
         else if neg then (2 ^ 64 - v) mod 2 ^ 64
         else v)"

definition strtoul_u32 :: "string \<Rightarrow> u32" where
  "strtoul_u32 str = of_nat (strtoul_16 str)"


section \<open>Single step and its two-step workaround (m68k-gdbserver.c, handle_step)\<close>

text \<open>
  \<^verbatim>\<open>handle_step\<close> and \<^verbatim>\<open>reset_single_step_capability\<close> are modelled at the level
  of the BDM operations they call. Each call is logged in order and its outcome (return
  code and value read) is whatever the environment gives for that call, so the theorems
  cover every behaviour of the pod and the target. \<open>Go n\<close> logs BDM GO together with
  the value \<^verbatim>\<open>g_step_count\<close> has when GO is issued. \<^verbatim>\<open>read_cpu_register(REG_PC, ..)\<close>
  always assigns its out-parameter (the value read or the cached one), so \<open>ReadPC\<close>
  always yields a value. \<^verbatim>\<open>g_step_count\<close> is written by these two functions only.
\<close>

datatype bdm_call =
  WritePC u32 | ReadPC | EnterModeCall u8 | ReadCSR | WriteCSR u32 | Go int
| FreezeCheck | ForceHalt | ReadMemLong u32

type_synonym bdm_env = "nat \<Rightarrow> int \<times> u32"

record dbg =
  g_step_count :: int
  g_target_halted :: int
  calls :: "bdm_call list"

definition bdm_call :: "bdm_env \<Rightarrow> bdm_call \<Rightarrow> dbg \<Rightarrow> (int \<times> u32) \<times> dbg" where
  "bdm_call env c s = (env (length (calls s)), s\<lparr>calls := calls s @ [c]\<rparr>)"

definition CSR_SSM :: u32 where
  "CSR_SSM = push_bit 4 1"

definition reset_single_step_capability :: "bdm_env \<Rightarrow> dbg \<Rightarrow> dbg" where
  "reset_single_step_capability env s =
     (case bdm_call env ReadPC s of ((r0, saved_pc), s1) \<Rightarrow>
      case bdm_call env (EnterModeCall 0xF8) s1 of (r1, s2) \<Rightarrow>
      case bdm_call env (EnterModeCall 0xF0) s2 of (r2, s3) \<Rightarrow>
      case bdm_call env (EnterModeCall 0xF8) s3 of (r3, s4) \<Rightarrow>
      case bdm_call env (WritePC saved_pc) s4 of (r4, s5) \<Rightarrow>
        s5\<lparr>g_step_count := 0\<rparr>)"

text \<open>
  \<^verbatim>\<open>for (int i = 0; i < 100; i++) { is_frozen = 0; cmd_bdm_freeze(.., &is_frozen);
  if (is_frozen) { halted = 1; break; } }\<close>: a freeze check that fails leaves
  \<open>is_frozen\<close> at 0.
\<close>

fun poll_halt :: "bdm_env \<Rightarrow> nat \<Rightarrow> dbg \<Rightarrow> bool \<times> dbg" where
  "poll_halt env 0 s = (False, s)"
| "poll_halt env (Suc n) s =
     (case bdm_call env FreezeCheck s of ((r, is_frozen), s1) \<Rightarrow>
        if r = 0 \<and> is_frozen \<noteq> 0 then (True, s1) else poll_halt env n s1)"

text \<open>
  \<^verbatim>\<open>handle_step(sock, data)\<close>; \<open>data\<close> is \<open>None\<close> for \<^verbatim>\<open>vCont;s\<close> (a NULL
  pointer). The result is the payload handed to \<^verbatim>\<open>send_packet\<close> and the new state.
\<close>

definition handle_step :: "bdm_env \<Rightarrow> string option \<Rightarrow> dbg \<Rightarrow> string \<times> dbg" where
  "handle_step env data s =
     (let s1 = (case data of
                  None \<Rightarrow> s
                | Some str \<Rightarrow>
                    if c_str str \<noteq> [] then snd (bdm_call env (WritePC (strtoul_u32 str)) s) else s);
          s2 = (if 2 \<le> g_step_count s1 then reset_single_step_capability env s1 else s1)
      in case bdm_call env ReadPC s2 of ((r_pc, pc_before), s3) \<Rightarrow>
         case bdm_call env ReadCSR s3 of ((r_csr, csr), s4) \<Rightarrow>
         if r_csr \<noteq> 0 then (''S05'', s4)
         else case bdm_call env (WriteCSR (csr OR CSR_SSM)) s4 of ((r_w, v_w), s5) \<Rightarrow>
         if r_w \<noteq> 0 then (''S05'', s5)
         else case bdm_call env (Go (g_step_count s5)) s5 of (r_go, s6) \<Rightarrow>
         case poll_halt env 100 s6 of (halted, s7) \<Rightarrow>
         let s8 = (if \<not> halted then snd (bdm_call env ForceHalt s7) else s7)
         in case bdm_call env ReadCSR s8 of ((r_csr2, csr2), s9) \<Rightarrow>
         let s10 = (if r_csr2 = 0 then snd (bdm_call env (WriteCSR (csr2 AND NOT CSR_SSM)) s9)
                    else s9)
         in case bdm_call env ReadPC s10 of ((r_pc2, pc_after), s11) \<Rightarrow>
         let s12 = (if pc_after = pc_before then snd (bdm_call env (ReadMemLong pc_before) s11)
                    else s11)
         in (''S05'', s12\<lparr>g_step_count := g_step_count s12 + 1, g_target_halted := 1\<rparr>))"

fun run_steps :: "bdm_env \<Rightarrow> string option list \<Rightarrow> dbg \<Rightarrow> dbg" where
  "run_steps env [] s = s"
| "run_steps env (d # ds) s = run_steps env ds (snd (handle_step env d s))"

definition dbg_init :: dbg where
  "dbg_init = \<lparr>g_step_count = 0, g_target_halted = 1, calls = []\<rparr>"

text \<open>\<open>quiet_ext s xs s'\<close>: \<open>s'\<close> extends \<open>s\<close> by the calls \<open>xs\<close>, none of them a GO,
  and has the same counter.\<close>

definition quiet_ext :: "dbg \<Rightarrow> bdm_call list \<Rightarrow> dbg \<Rightarrow> bool" where
  "quiet_ext s xs s' =
     (calls s' = calls s @ xs \<and> g_step_count s' = g_step_count s \<and> (\<forall>n. Go n \<notin> set xs))"

lemma quiet_ext_refl: "quiet_ext s [] s"
  by (simp add: quiet_ext_def)

lemma quiet_ext_trans: "quiet_ext s xs s' \<Longrightarrow> quiet_ext s' ys s'' \<Longrightarrow> quiet_ext s (xs @ ys) s''"
  by (auto simp: quiet_ext_def)

lemma bdm_call_quiet: "(\<And>n. c \<noteq> Go n) \<Longrightarrow> quiet_ext s [c] (snd (bdm_call env c s))"
  by (auto simp: quiet_ext_def bdm_call_def)

lemma bdm_call_fst: "fst (bdm_call env c s) = env (length (calls s))"
  by (simp add: bdm_call_def)

lemma poll_halt_quiet: "\<exists>xs. quiet_ext s xs (snd (poll_halt env n s))"
proof (induction n arbitrary: s)
  case 0
  show ?case using quiet_ext_refl by auto
next
  case (Suc n)
  obtain r v s1 where c: "bdm_call env FreezeCheck s = ((r, v), s1)"
    by (metis surj_pair)
  have q1: "quiet_ext s [FreezeCheck] s1"
    using bdm_call_quiet [of FreezeCheck s env] c by simp
  show ?case
  proof (cases "r = 0 \<and> v \<noteq> 0")
    case True
    with c q1 show ?thesis by auto
  next
    case False
    from Suc.IH [of s1] obtain xs where "quiet_ext s1 xs (snd (poll_halt env n s1))" by blast
    with q1 have "quiet_ext s ([FreezeCheck] @ xs) (snd (poll_halt env n s1))"
      by (rule quiet_ext_trans)
    with c False show ?thesis by auto
  qed
qed

definition reset_calls :: "u32 \<Rightarrow> bdm_call list" where
  "reset_calls saved_pc =
     [ReadPC, EnterModeCall 0xF8, EnterModeCall 0xF0, EnterModeCall 0xF8, WritePC saved_pc]"

lemma reset_calls_no_go: "Go n \<notin> set (reset_calls pc)"
  by (simp add: reset_calls_def)

lemma reset_single_step_capability_calls:
  "calls (reset_single_step_capability env s) =
     calls s @ reset_calls (snd (env (length (calls s))))"
  by (simp add: reset_single_step_capability_def bdm_call_def reset_calls_def split: prod.splits)

lemma reset_single_step_capability_count:
  "g_step_count (reset_single_step_capability env s) = 0"
  by (simp add: reset_single_step_capability_def bdm_call_def split: prod.splits)


lemma poll_halt_quietD:
  "poll_halt env n s = (h, s') \<Longrightarrow> \<exists>xs. quiet_ext s xs s'"
  using poll_halt_quiet [of s env n] by simp

definition step_pre :: "string option \<Rightarrow> bdm_call list" where
  "step_pre data =
     (case data of None \<Rightarrow> []
      | Some str \<Rightarrow> if c_str str \<noteq> [] then [WritePC (strtoul_u32 str)] else [])"

definition step_ok :: "int \<Rightarrow> dbg \<Rightarrow> dbg \<Rightarrow> bool" where
  "step_ok c s2 s' =
     (\<exists>ys. calls s' = calls s2 @ ys \<and> (\<forall>n. Go n \<in> set ys \<longrightarrow> n = c) \<and>
           (g_step_count s' = c \<or> g_step_count s' = c + 1))"

lemma handle_step_shape:
  obtains s2 :: dbg and ys where
    "calls s2 =
       calls s @ step_pre data @
         (if 2 \<le> g_step_count s
          then reset_calls (snd (env (length (calls s) + length (step_pre data)))) else [])"
    and "g_step_count s2 = (if 2 \<le> g_step_count s then 0 else g_step_count s)"
    and "calls (snd (handle_step env data s)) = calls s2 @ ys"
    and "\<forall>n. Go n \<in> set ys \<longrightarrow> n = g_step_count s2"
    and "g_step_count (snd (handle_step env data s)) = g_step_count s2 \<or>
         g_step_count (snd (handle_step env data s)) = g_step_count s2 + 1"
proof -
  define s1 where "s1 = (case data of
                  None \<Rightarrow> s
                | Some str \<Rightarrow>
                    if c_str str \<noteq> [] then snd (bdm_call env (WritePC (strtoul_u32 str)) s) else s)"
  define s2 where "s2 = (if 2 \<le> g_step_count s1 then reset_single_step_capability env s1 else s1)"
  have c1: "calls s1 = calls s @ step_pre data" and g1: "g_step_count s1 = g_step_count s"
    by (auto simp: s1_def step_pre_def bdm_call_def split: option.splits)
  have c2: "calls s2 = calls s @ step_pre data @
            (if 2 \<le> g_step_count s
             then reset_calls (snd (env (length (calls s) + length (step_pre data)))) else [])"
    by (simp add: s2_def g1 c1 reset_single_step_capability_calls)
  have g2: "g_step_count s2 = (if 2 \<le> g_step_count s then 0 else g_step_count s)"
    by (simp add: s2_def g1 reset_single_step_capability_count)
  have "step_ok (g_step_count s2) s2 (snd (handle_step env data s))"
    unfolding handle_step_def Let_def s1_def [symmetric] s2_def [symmetric] step_ok_def
    by (auto simp: bdm_call_def quiet_ext_def split: prod.splits if_splits dest!: poll_halt_quietD)
  then obtain ys where
    a: "calls (snd (handle_step env data s)) = calls s2 @ ys" and
    b: "\<forall>n. Go n \<in> set ys \<longrightarrow> n = g_step_count s2" and
    c: "g_step_count (snd (handle_step env data s)) = g_step_count s2 \<or>
     g_step_count (snd (handle_step env data s)) = g_step_count s2 + 1"
    unfolding step_ok_def by blast
  show ?thesis by (rule that [OF c2 g2 a b c])
qed

definition step_inv :: "dbg \<Rightarrow> bool" where
  "step_inv s =
     (0 \<le> g_step_count s \<and> g_step_count s \<le> 2 \<and>
      (\<forall>n. Go n \<in> set (calls s) \<longrightarrow> n = 0 \<or> n = 1))"

lemma step_pre_no_go: "Go n \<notin> set (step_pre data)"
  by (simp add: step_pre_def split: option.splits)

lemma handle_step_inv:
  assumes "step_inv s"
  shows "step_inv (snd (handle_step env data s))"
proof -
  obtain s2 :: dbg and ys where
    c2: "calls s2 = calls s @ step_pre data @
            (if 2 \<le> g_step_count s
             then reset_calls (snd (env (length (calls s) + length (step_pre data)))) else [])"
    and g2: "g_step_count s2 = (if 2 \<le> g_step_count s then 0 else g_step_count s)"
    and cs: "calls (snd (handle_step env data s)) = calls s2 @ ys"
    and go: "\<forall>n. Go n \<in> set ys \<longrightarrow> n = g_step_count s2"
    and gs: "g_step_count (snd (handle_step env data s)) = g_step_count s2 \<or>
             g_step_count (snd (handle_step env data s)) = g_step_count s2 + 1"
    by (rule handle_step_shape [of s data env])
  have r: "0 \<le> g_step_count s2 \<and> g_step_count s2 \<le> 1"
    using assms g2 by (auto simp: step_inv_def)
  have "\<forall>n. Go n \<in> set (calls (snd (handle_step env data s))) \<longrightarrow> n = 0 \<or> n = 1"
  proof (intro allI impI)
    fix n
    assume "Go n \<in> set (calls (snd (handle_step env data s)))"
    then have "Go n \<in> set (calls s) \<or> Go n \<in> set ys"
      unfolding cs c2 using step_pre_no_go [of n data] reset_calls_no_go [of n]
      by (auto split: if_splits)
    then show "n = 0 \<or> n = 1"
      using assms go r by (auto simp: step_inv_def)
  qed
  then show ?thesis
    using r gs by (auto simp: step_inv_def)
qed

lemma run_steps_inv: "step_inv s \<Longrightarrow> step_inv (run_steps env ds s)"
  by (induction ds arbitrary: s) (simp_all add: handle_step_inv)

lemma dbg_init_inv: "step_inv dbg_init"
  by (simp add: step_inv_def dbg_init_def)

lemma handle_step_reset_first:
  assumes "2 \<le> g_step_count s"
  shows "\<exists>ys. calls (snd (handle_step env data s)) =
              calls s @ step_pre data @
              reset_calls (snd (env (length (calls s) + length (step_pre data)))) @ ys \<and>
            (\<forall>n. Go n \<in> set ys \<longrightarrow> n = 0)"
proof -
  obtain s2 :: dbg and ys where
    c2: "calls s2 = calls s @ step_pre data @
            (if 2 \<le> g_step_count s
             then reset_calls (snd (env (length (calls s) + length (step_pre data)))) else [])"
    and g2: "g_step_count s2 = (if 2 \<le> g_step_count s then 0 else g_step_count s)"
    and cs: "calls (snd (handle_step env data s)) = calls s2 @ ys"
    and go: "\<forall>n. Go n \<in> set ys \<longrightarrow> n = g_step_count s2"
    by (rule handle_step_shape [of s data env])
  from assms c2 g2 cs go show ?thesis by auto
qed

text \<open>
  Claim C6. From the initial state, after any sequence of step requests and whatever the
  pod answers, the step counter is 0, 1 or 2, and every BDM GO was issued with the
  counter at 0 or 1. A step request that finds the counter at 2 (or more) first, right
  after the optional PC write of \<^verbatim>\<open>s addr\<close>, reads the PC, enters modes F8, F0, F8,
  writes the PC it read back, and resets the counter: every GO of that request is issued
  with the counter at 0.
\<close>

theorem C6_step_counter:
  "(0 \<le> g_step_count (run_steps env ds dbg_init) \<and> g_step_count (run_steps env ds dbg_init) \<le> 2) \<and>
   (\<forall>n. Go n \<in> set (calls (run_steps env ds dbg_init)) \<longrightarrow> n = 0 \<or> n = 1) \<and>
   (2 \<le> g_step_count s \<longrightarrow>
      (\<exists>ys. calls (snd (handle_step env data s)) =
              calls s @ step_pre data @
              reset_calls (snd (env (length (calls s) + length (step_pre data)))) @ ys \<and>
            (\<forall>n. Go n \<in> set ys \<longrightarrow> n = 0)))"
  using run_steps_inv [OF dbg_init_inv, of env ds] handle_step_reset_first [of s env data]
  by (simp add: step_inv_def)

definition env_halting :: bdm_env where
  "env_halting = (\<lambda>k. (0, 1))"

lemma poll_halt_first:
  "fst (env (length (calls s))) = 0 \<Longrightarrow> snd (env (length (calls s))) \<noteq> 0 \<Longrightarrow>
   poll_halt env (Suc n) s = (True, snd (bdm_call env FreezeCheck s))"
  by (cases "env (length (calls s))") (simp add: bdm_call_def)

lemma handle_step_halting:
  "g_step_count s < 2 \<Longrightarrow>
   g_step_count (snd (handle_step env_halting None s)) = g_step_count s + 1"
proof -
  have e: "env_halting k = (0, 1)" for k by (simp add: env_halting_def)
  have p: "poll_halt env_halting 100 t = (True, snd (bdm_call env_halting FreezeCheck t))" for t
    using poll_halt_first [of env_halting t 99] by (simp add: e)
  assume "g_step_count s < 2"
  then show ?thesis
    by (simp add: handle_step_def Let_def p bdm_call_def e split: prod.splits)
qed

lemma two_steps_count: "g_step_count (run_steps env_halting [None, None] dbg_init) = 2"
  by (simp add: handle_step_halting dbg_init_def)

theorem C6_step_counter_witness:
  "g_step_count (run_steps env_halting [None, None] dbg_init) = 2 \<and>
   g_step_count (run_steps env_halting [None, None, None] dbg_init) \<le> 2 \<and>
   take 5 (drop (length (calls (run_steps env_halting [None, None] dbg_init)))
             (calls (run_steps env_halting [None, None, None] dbg_init))) =
     [ReadPC, EnterModeCall 0xF8, EnterModeCall 0xF0, EnterModeCall 0xF8, WritePC 1]"
proof -
  let ?s = "run_steps env_halting [None, None] dbg_init"
  have two: "2 \<le> g_step_count ?s" by (simp only: two_steps_count)
  have r3: "run_steps env_halting [None, None, None] dbg_init =
            snd (handle_step env_halting None ?s)"
    by simp
  from C6_step_counter [of env_halting "[None, None, None]" ?s None] two
  obtain ys where
    le: "g_step_count (run_steps env_halting [None, None, None] dbg_init) \<le> 2" and
    cs: "calls (snd (handle_step env_halting None ?s)) =
           calls ?s @ step_pre None @
           reset_calls (snd (env_halting (length (calls ?s) + length (step_pre None)))) @ ys"
    by blast
  have "take 5 (drop (length (calls ?s)) (calls (snd (handle_step env_halting None ?s)))) =
        [ReadPC, EnterModeCall 0xF8, EnterModeCall 0xF0, EnterModeCall 0xF8, WritePC 1]"
    unfolding cs by (simp add: step_pre_def reset_calls_def env_halting_def)
  with le two_steps_count show ?thesis unfolding r3 by simp
qed


section \<open>Memory read over USB and the m and qCRC packets\<close>

subsection \<open>cmd_0717_read_memory (openlink_protocol.c)\<close>

text \<open>
  The loop that gathers further IN packets while fewer bytes than announced have arrived,
  the 256-byte buffer is not full and fewer than nine packets were read; a short packet
  ends it. The result is \<open>None\<close> when a transfer fails, else the total received.
\<close>

function recv_more :: "device \<Rightarrow> int \<Rightarrow> nat \<Rightarrow> nat \<Rightarrow> pod \<Rightarrow> nat option \<times> pod" where
  "recv_more dev total_expected total_received packet_num s =
     (if int total_received < total_expected \<and> total_received < 256 \<and> packet_num < 10
      then (let remaining_space = 256 - total_received
            in case bulk_in dev remaining_space s of
                 (Inl e, s1) \<Rightarrow> (None, s1)
               | (Inr d, s1) \<Rightarrow>
                   (let s2 = s1\<lparr>g_cmd_buffer := store_at (g_cmd_buffer s1) total_received d\<rparr>;
                        chunk_len = length d
                    in if chunk_len < remaining_space
                       then (Some (total_received + chunk_len), s2)
                       else recv_more dev total_expected (total_received + chunk_len)
                              (packet_num + 1) s2))
      else (Some total_received, s))"
  by pat_completeness auto
termination
  by (relation "measure (\<lambda>(dev, total_expected, total_received, packet_num, s). 10 - packet_num)")
     auto

text \<open>
  The extraction loop: four data bytes are taken from every six-byte group of the
  response, starting after the five-byte header, while bytes are wanted and a whole group
  of four lies within what was received.
\<close>

function extract_0717 :: "u8 list \<Rightarrow> nat \<Rightarrow> nat \<Rightarrow> nat \<Rightarrow> nat \<Rightarrow> u8 list \<Rightarrow> u8 list" where
  "extract_0717 gbuf total_received src_offset dst_offset bytes_remaining buffer =
     (if 0 < bytes_remaining \<and> src_offset + 4 \<le> total_received
      then (let chunk = (if 4 \<le> bytes_remaining then 4 else bytes_remaining)
            in extract_0717 gbuf total_received (src_offset + 6) (dst_offset + chunk)
                 (bytes_remaining - chunk)
                 (store_at buffer dst_offset (take chunk (drop src_offset gbuf))))
      else buffer)"
  by pat_completeness auto
termination
  by (relation "measure (\<lambda>(gbuf, total_received, src_offset, dst_offset, bytes_remaining, buffer).
                   bytes_remaining)") auto

definition cmd_0717_request :: "u32 \<Rightarrow> u16 \<Rightarrow> u8 list \<Rightarrow> u8 list" where
  "cmd_0717_request addr len cmd =
     (let request_length = (of_nat (((unat len + 3) div 4) * 6) :: u16)
      in cmd[0 := 0xaa, 1 := 0x55, 2 := 0x00, 3 := 0x08, 4 := 0x07, 5 := 0x17,
             6 := byte_of addr 24, 7 := byte_of addr 16, 8 := byte_of addr 8, 9 := byte_of addr 0,
             10 := byte_of16 request_length 8, 11 := byte_of16 request_length 0])"

text \<open>
  \<^verbatim>\<open>cmd_0717_read_memory(handle, addr, length, buffer, buffer_size)\<close>. The caller's
  buffer is passed in and returned; the result is (return value, buffer, pod).
\<close>

definition cmd_0717_read_memory ::
  "device \<Rightarrow> u32 \<Rightarrow> u16 \<Rightarrow> u8 list \<Rightarrow> int \<Rightarrow> pod \<Rightarrow> int \<times> u8 list \<times> pod" where
  "cmd_0717_read_memory dev addr len buffer buffer_size s =
     (if buffer_size < uint len then (- 1, buffer, s)
      else
        (let s0 = s\<lparr>g_cmd_buffer := cmd_0717_request addr len (g_cmd_buffer s)\<rparr>
         in case bulk_out dev (take 256 (g_cmd_buffer s0)) s0 of
              (False, s1) \<Rightarrow> (- 1, buffer, s1)
            | (True, s1) \<Rightarrow>
                (case bulk_in dev 256 s1 of
                   (Inl e, s2) \<Rightarrow> (- 1, buffer, s2)
                 | (Inr d, s2) \<Rightarrow>
                     (let s3 = s2\<lparr>g_cmd_buffer := store_at (g_cmd_buffer s2) 0 d\<rparr>;
                          actual_response_len = length d
                      in if actual_response_len < 4 then (- 1, buffer, s3)
                         else
                           (let response_len =
                                  (push_bit 8 (ucast (g_cmd_buffer s3 ! 2)) OR
                                   ucast (g_cmd_buffer s3 ! 3) :: u16);
                                total_expected = 4 + uint response_len
                            in case recv_more dev total_expected actual_response_len 2 s3 of
                                 (None, s4) \<Rightarrow> (- 1, buffer, s4)
                               | (Some total_received, s4) \<Rightarrow>
                                   if fst (validate_response (g_cmd_buffer s4) (int total_received)
                                             (5 + uint len)) \<noteq> 0
                                   then (- 1, buffer, s4)
                                   else (0, extract_0717 (g_cmd_buffer s4) total_received 5 0
                                              (unat len) buffer, s4))))))"

subsection \<open>Hex output (m68k-gdbserver.c)\<close>

definition hex_char :: "nat \<Rightarrow> char" where
  "hex_char n = ''0123456789abcdef'' ! (n mod 16)"

text \<open>\<^verbatim>\<open>bytes_to_hex\<close>: \<^verbatim>\<open>sprintf(hex + i * 2, "%02x", bytes[i])\<close> for every byte.\<close>

definition hex_byte :: "u8 \<Rightarrow> string" where
  "hex_byte b = [hex_char (unat b div 16), hex_char (unat b mod 16)]"

definition bytes_to_hex :: "u8 list \<Rightarrow> string" where
  "bytes_to_hex bytes = concat (map hex_byte bytes)"

text \<open>\<^verbatim>\<open>printf("%x", n)\<close>: lower-case hex digits, no leading zeros, "0" for zero.\<close>

function fmt_x :: "nat \<Rightarrow> string" where
  "fmt_x n = (if n < 16 then [hex_char n] else fmt_x (n div 16) @ [hex_char (n mod 16)])"
  by pat_completeness auto
termination
  by (relation "measure (\<lambda>n. n)") auto

text \<open>\<^verbatim>\<open>send_error(sock, e)\<close> sends \<^verbatim>\<open>"E%02x"\<close> of \<^verbatim>\<open>e & 0xff\<close>.\<close>

definition error_reply :: "nat \<Rightarrow> string" where
  "error_reply e = CHR ''E'' # hex_byte (of_nat (e mod 256))"

subsection \<open>The m packet (m68k-gdbserver.c, handle_read_memory)\<close>

text \<open>
  \<open>alloc n\<close> says whether \<^verbatim>\<open>malloc(n)\<close> succeeds; a fresh block holds unspecified
  bytes. The result is the payload handed to \<^verbatim>\<open>send_packet\<close>.
\<close>

definition handle_read_memory ::
  "device \<Rightarrow> (nat \<Rightarrow> bool) \<Rightarrow> string \<Rightarrow> pod \<Rightarrow> string \<times> pod" where
  "handle_read_memory dev alloc data s =
     (case strchr data CHR '','' of
        None \<Rightarrow> (error_reply 1, s)
      | Some comma \<Rightarrow>
          (let addr = strtoul_u32 data;
               len0 = strtoul_u32 (tl comma);
               len = (if 2048 < len0 then 2048 else len0)
           in if \<not> alloc (unat len) then (error_reply 12, s)
              else
                (case cmd_0717_read_memory dev addr (ucast len)
                        (uninit_buffer dev (n_in s) (unat len)) (uint len) s of
                   (result, buffer, s1) \<Rightarrow>
                     if result \<noteq> 0 then (error_reply 5, s1)
                     else if \<not> alloc (unat len * 2 + 1) then (error_reply 12, s1)
                     else (bytes_to_hex (take (unat len) buffer), s1))))"

subsection \<open>The qCRC packet (m68k-gdbserver.c, handle_query)\<close>

text \<open>
  The read loop of the qCRC branch: chunks of at most 128 bytes, each read into the
  buffer at its offset.
\<close>

function qcrc_read ::
  "device \<Rightarrow> u32 \<Rightarrow> nat \<Rightarrow> nat \<Rightarrow> u8 list \<Rightarrow> pod \<Rightarrow> u8 list option \<times> pod" where
  "qcrc_read dev addr len offset buffer s =
     (if offset < len
      then (let chunk = (if 128 < len - offset then 128 else len - offset)
            in case cmd_0717_read_memory dev (addr + of_nat offset) (of_nat chunk)
                      (drop offset buffer) (int chunk) s of
                 (r, b, s1) \<Rightarrow>
                   if r \<noteq> 0 then (None, s1)
                   else qcrc_read dev addr len (offset + chunk) (take offset buffer @ b) s1)
      else (Some buffer, s))"
  by pat_completeness auto
termination
  by (relation "measure (\<lambda>(dev, addr, len, offset, buffer, s). len - offset)") auto

text \<open>
  The branch of \<^verbatim>\<open>handle_query\<close> taken when the data starts with \<^verbatim>\<open>CRC:\<close>;
  \<open>params\<close> is what follows the colon.
\<close>

definition handle_query_crc ::
  "device \<Rightarrow> (nat \<Rightarrow> bool) \<Rightarrow> string \<Rightarrow> pod \<Rightarrow> string \<times> pod" where
  "handle_query_crc dev alloc params s =
     (case strchr params CHR '','' of
        None \<Rightarrow> (error_reply 1, s)
      | Some comma \<Rightarrow>
          (let addr = strtoul_u32 params;
               len = strtoul_u32 (tl comma)
           in if \<not> alloc (unat len) then (error_reply 2, s)
              else
                (case qcrc_read dev addr (unat len) 0 (uninit_buffer dev (n_in s) (unat len)) s of
                   (None, s1) \<Rightarrow> (error_reply 3, s1)
                 | (Some buffer, s1) \<Rightarrow>
                     (CHR ''C'' # fmt_x (unat (xcrc32 (take (unat len) buffer) 0xFFFFFFFF)), s1))))"


subsection \<open>A pod in front of erased flash\<close>

text \<open>
  A pod that answers every request as a memory read of erased flash would be answered:
  a standard frame whose payload has, for every six bytes requested, four bytes 0xff and
  two padding bytes. \<open>frame_16\<close> and \<open>frame_10\<close> are its answers to reads of 16 and of
  10 bytes. \<open>always_alloc\<close> is a heap on which every allocation succeeds.
\<close>

definition erased_frame :: "u8 list \<Rightarrow> u8 list" where
  "erased_frame req =
     (let rl = unat (req ! 10) * 256 + unat (req ! 11)
      in [0x99, 0x66, of_nat ((rl + 1) div 256), of_nat ((rl + 1) mod 256), 0xee] @
         concat (replicate (rl div 6) [0xff, 0xff, 0xff, 0xff, 0x00, 0x00]))"

definition erased_flash_device :: device where
  "erased_flash_device =
     \<lparr>dev_out = (\<lambda>k. None), dev_in = (\<lambda>k req. Inr (erased_frame req)),
      stack_junk = (\<lambda>k i. 0x00)\<rparr>"

definition always_alloc :: "nat \<Rightarrow> bool" where
  "always_alloc n = True"

definition frame_16 :: "u8 list" where
  "frame_16 = [0x99, 0x66, 0x00, 0x19, 0xee,
          0xff, 0xff, 0xff, 0xff, 0x00, 0x00, 0xff, 0xff, 0xff, 0xff, 0x00, 0x00,
          0xff, 0xff, 0xff, 0xff, 0x00, 0x00, 0xff, 0xff, 0xff, 0xff, 0x00, 0x00]"


definition frame_10 :: "u8 list" where
  "frame_10 = [0x99, 0x66, 0x00, 0x13, 0xee,
          0xff, 0xff, 0xff, 0xff, 0x00, 0x00, 0xff, 0xff, 0xff, 0xff, 0x00, 0x00,
          0xff, 0xff, 0xff, 0xff, 0x00, 0x00]"


subsection \<open>What a read can return\<close>

declare recv_more.simps [simp del]
declare extract_0717.simps [simp del]
declare qcrc_read.simps [simp del]
declare fmt_x.simps [simp del]


lemma bulk_in_length: "bulk_in dev cap s = (Inr d, s') \<Longrightarrow> length d \<le> cap"
  by (auto simp: bulk_in_def split: sum.splits if_splits)

lemma recv_more_bound:
  "recv_more dev total_expected total_received packet_num s = (Some n, s') \<Longrightarrow>
   total_received \<le> 256 \<Longrightarrow> n \<le> 256"
proof (induction dev total_expected total_received packet_num s arbitrary: n s'
       rule: recv_more.induct)
  case (1 dev total_expected total_received packet_num s)
  show ?case
  proof (cases "int total_received < total_expected \<and> total_received < 256 \<and> packet_num < 10")
    case False
    have "recv_more dev total_expected total_received packet_num s = (Some total_received, s)"
      by (subst recv_more.simps) (simp only: False if_False)
    with "1.prems" show ?thesis by simp
  next
    case True
    obtain r s1 where b: "bulk_in dev (256 - total_received) s = (r, s1)"
      by (cases "bulk_in dev (256 - total_received) s")
    show ?thesis
    proof (cases r)
      case (Inl e)
      with True b "1.prems" show ?thesis
        by (simp add: recv_more.simps [of dev total_expected total_received packet_num s])
    next
      case (Inr d)
      have dl: "length d \<le> 256 - total_received"
        using bulk_in_length b Inr by blast
      let ?s2 = "s1\<lparr>g_cmd_buffer := store_at (g_cmd_buffer s1) total_received d\<rparr>"
      show ?thesis
      proof (cases "length d < 256 - total_received")
        case True
        note short = this
        have "recv_more dev total_expected total_received packet_num s =
              (Some (total_received + length d), ?s2)"
          using \<open>int total_received < total_expected \<and> total_received < 256 \<and> packet_num < 10\<close>
            b Inr short
          by (simp add: recv_more.simps [of dev total_expected total_received packet_num s] Let_def)
        with "1.prems" short show ?thesis by auto
      next
        case False
        have "recv_more dev total_expected total_received packet_num s =
              recv_more dev total_expected (total_received + length d) (packet_num + 1) ?s2"
          using True b Inr False
          by (simp add: recv_more.simps [of dev total_expected total_received packet_num s] Let_def)
        with "1.prems" have run: "recv_more dev total_expected (total_received + length d) (packet_num + 1) ?s2 = (Some n, s')"
          by simp
        have le: "total_received + length d \<le> 256" using dl True by linarith
        show ?thesis
          using "1.IH" [OF True refl _ _ refl refl False run le] b Inr by simp
      qed
    qed
  qed
qed

lemma validate_response_short: "len < min_length \<Longrightarrow> fst (validate_response buf len min_length) = - 1"
  by (simp add: validate_response_def)

lemma cmd_0717_read_memory_too_long:
  assumes "251 < unat len"
  shows "fst (cmd_0717_read_memory dev addr len buffer buffer_size s) = - 1"
proof (cases "buffer_size < uint len")
  case True
  then show ?thesis by (simp add: cmd_0717_read_memory_def)
next
  case False
  note size_ok = this
  have v: "n \<le> 256 \<Longrightarrow> fst (validate_response buf (int n) (5 + uint len)) \<noteq> 0" for n buf
  proof -
    assume "n \<le> 256"
    moreover have "uint len = int (unat len)" by (rule uint_nat)
    ultimately have "int n < 5 + uint len" using assms by linarith
    then show ?thesis
      using validate_response_short [of "int n" "5 + uint len" buf] by simp
  qed
  let ?s0 = "s\<lparr>g_cmd_buffer := cmd_0717_request addr len (g_cmd_buffer s)\<rparr>"
  obtain ok s1 where bo: "bulk_out dev (take 256 (g_cmd_buffer ?s0)) ?s0 = (ok, s1)"
    by (cases "bulk_out dev (take 256 (g_cmd_buffer ?s0)) ?s0")
  show ?thesis
  proof (cases ok)
    case False
    with size_ok bo show ?thesis by (simp add: cmd_0717_read_memory_def Let_def)
  next
    case True
    note out_ok = this
    obtain r s2 where bi: "bulk_in dev 256 s1 = (r, s2)"
      by (cases "bulk_in dev 256 s1")
    show ?thesis
    proof (cases r)
      case (Inl e)
      with size_ok bo out_ok bi show ?thesis by (simp add: cmd_0717_read_memory_def Let_def)
    next
      case (Inr d)
      note got = this
      have dl: "length d \<le> 256" using bulk_in_length bi Inr by blast
      let ?s3 = "s2\<lparr>g_cmd_buffer := store_at (g_cmd_buffer s2) 0 d\<rparr>"
      show ?thesis
      proof (cases "length d < 4")
        case True
        with size_ok bo out_ok bi got show ?thesis
          by (simp add: cmd_0717_read_memory_def Let_def)
      next
        case False
        note long = this
        let ?te = "4 + uint (push_bit 8 (ucast (g_cmd_buffer ?s3 ! 2)) OR
                                   ucast (g_cmd_buffer ?s3 ! 3) :: u16)"
        obtain m s4 where rm: "recv_more dev ?te (length d) 2 ?s3 = (m, s4)"
          by (cases "recv_more dev ?te (length d) 2 ?s3")
        show ?thesis
        proof (cases m)
          case None
          with size_ok bo out_ok bi got long rm show ?thesis
            by (simp add: cmd_0717_read_memory_def Let_def)
        next
          case (Some n)
          with rm dl have "n \<le> 256" using recv_more_bound by blast
          then have "fst (validate_response (g_cmd_buffer s4) (int n) (5 + uint len)) \<noteq> 0"
            by (rule v)
          with size_ok bo out_ok bi got long rm Some show ?thesis
            by (simp add: cmd_0717_read_memory_def Let_def)
        qed
      qed
    qed
  qed
qed


lemma strtoul_u32_0_10: "strtoul_u32 ''0,10'' = 0"
  by (simp add: strtoul_u32_def strtoul_16_def isspace_c_def hex_digit_val_def Let_def)

lemma strtoul_u32_10: "strtoul_u32 ''10'' = 16"
  by (simp add: strtoul_u32_def strtoul_16_def isspace_c_def hex_digit_val_def Let_def)

lemma strtoul_u32_a: "strtoul_u32 ''a'' = 10"
  by (simp add: strtoul_u32_def strtoul_16_def isspace_c_def hex_digit_val_def Let_def)

lemma strtoul_u32_801: "strtoul_u32 ''801'' = 2049"
  by (simp add: strtoul_u32_def strtoul_16_def isspace_c_def hex_digit_val_def Let_def)

lemma replicate_4: "replicate 4 x = [x, x, x, x]"
  by (simp add: numeral_eq_Suc)

lemma erased_frame_16:
  assumes "length buf = 256"
  shows "erased_frame (take 256 (cmd_0717_request 0 16 buf)) =
         [0x99, 0x66, 0x00, 0x19, 0xee,
          0xff, 0xff, 0xff, 0xff, 0x00, 0x00, 0xff, 0xff, 0xff, 0xff, 0x00, 0x00,
          0xff, 0xff, 0xff, 0xff, 0x00, 0x00, 0xff, 0xff, 0xff, 0xff, 0x00, 0x00]"
proof -
  have a: "take 256 (cmd_0717_request 0 16 buf) ! 10 = 0"
    and b: "take 256 (cmd_0717_request 0 16 buf) ! 11 = 24"
    using assms by (simp_all add: cmd_0717_request_def byte_of16_def Let_def)
  show ?thesis
    unfolding erased_frame_def a b Let_def
    by (simp add: replicate_4)
qed


lemma cmd_0717_request_length: "length (cmd_0717_request addr len buf) = length buf"
  by (simp add: cmd_0717_request_def Let_def)

lemma extract_16:
  assumes "length b0 = 16"
  shows "extract_0717 (frame_16 @ rest) 29 5 0 16 b0 = replicate 16 0xff"
proof -
  obtain x0 x1 x2 x3 x4 x5 x6 x7 x8 x9 x10 x11 x12 x13 x14 x15 where
    b0: "b0 = [x0, x1, x2, x3, x4, x5, x6, x7, x8, x9, x10, x11, x12, x13, x14, x15]"
    using assms by (auto simp: length_Suc_conv numeral_eq_Suc)
  show ?thesis
    unfolding b0 frame_16_def
    by (simp add: extract_0717.simps store_at_def replicate_4 numeral_eq_Suc)
qed


lemma erased_frame_16': 
  assumes "length buf = 256"
  shows "erased_frame (cmd_0717_request 0 16 buf) = frame_16"
  using erased_frame_16 [OF assms] assms by (simp add: cmd_0717_request_length frame_16_def)

lemma recv_more_done:
  "\<not> int total_received < total_expected \<Longrightarrow>
   recv_more dev total_expected total_received packet_num s = (Some total_received, s)"
  by (subst recv_more.simps) simp

lemma read_16_erased:
  assumes len: "length (g_cmd_buffer s) = 256" and b0: "length b0 = 16"
  shows "fst (cmd_0717_read_memory erased_flash_device 0 16 b0 16 s) = 0 \<and>
         fst (snd (cmd_0717_read_memory erased_flash_device 0 16 b0 16 s)) = replicate 16 0xff"
proof -
  let ?req = "cmd_0717_request 0 16 (g_cmd_buffer s)"
  let ?s0 = "s\<lparr>g_cmd_buffer := ?req\<rparr>"
  let ?s1 = "?s0\<lparr>sent := sent ?s0 @ [?req], n_out := n_out ?s0 + 1\<rparr>"
  let ?s2 = "?s1\<lparr>n_in := n_in ?s1 + 1\<rparr>"
  let ?s3 = "?s2\<lparr>g_cmd_buffer := store_at (g_cmd_buffer ?s2) 0 frame_16\<rparr>"
  have lr: "length ?req = 256" using len by (simp add: cmd_0717_request_length)
  have bo: "bulk_out erased_flash_device (take 256 (g_cmd_buffer ?s0)) ?s0 = (True, ?s1)"
    using lr by (simp add: bulk_out_def erased_flash_device_def)
  have bi: "bulk_in erased_flash_device 256 ?s1 = (Inr frame_16, ?s2)"
    using erased_frame_16' [OF len]
    by (simp add: bulk_in_def last_request_def erased_flash_device_def) (simp add: frame_16_def)
  have l29: "length frame_16 = 29" by (simp add: frame_16_def)
  have g3: "g_cmd_buffer ?s3 = frame_16 @ drop 29 ?req"
    by (simp add: store_at_def l29)
  have te: "4 + uint (push_bit 8 (ucast (g_cmd_buffer ?s3 ! 2)) OR ucast (g_cmd_buffer ?s3 ! 3) :: u16) = 29"
    unfolding g3 by (simp add: frame_16_def)
  have rm: "recv_more erased_flash_device 29 29 2 ?s3 = (Some 29, ?s3)"
    by (rule recv_more_done) simp
  have va: "fst (validate_response (g_cmd_buffer ?s3) 29 (5 + uint (16 :: u16))) = 0"
    unfolding g3 by (simp add: validate_response_def frame_16_def)
  have ex: "extract_0717 (g_cmd_buffer ?s3) 29 5 0 16 b0 = replicate 16 0xff"
    unfolding g3 by (rule extract_16 [OF b0])
  have "cmd_0717_read_memory erased_flash_device 0 16 b0 16 s = (0, replicate 16 0xff, ?s3)"
    unfolding cmd_0717_read_memory_def Let_def bo
    using bi te rm va ex l29 by simp
  then show ?thesis by simp
qed

lemma bytes_to_hex_ff: "bytes_to_hex (replicate n 0xff) = replicate (2 * n) CHR ''f''"
  by (induction n) (simp_all add: bytes_to_hex_def hex_byte_def hex_char_def)

lemma handle_read_memory_0_10:
  assumes "length (g_cmd_buffer s) = 256"
  shows "fst (handle_read_memory erased_flash_device always_alloc ''0,10'' s) =
         replicate 32 CHR ''f''"
proof -
  have sc: "strchr ''0,10'' CHR '','' = Some '',10''" by (simp add: strchr_def c_str_def)
  have ub: "length (uninit_buffer erased_flash_device (n_in s) 16) = 16"
    by (simp add: uninit_buffer_def)
  obtain r b s1 where
    eq: "cmd_0717_read_memory erased_flash_device 0 16
           (uninit_buffer erased_flash_device (n_in s) 16) 16 s = (r, b, s1)"
    by (metis surj_pair)
  with read_16_erased [OF assms ub] have rb: "r = 0" "b = replicate 16 0xff" by simp_all
  show ?thesis
    by (simp add: handle_read_memory_def sc strtoul_u32_0_10 strtoul_u32_10 Let_def always_alloc_def
          eq rb bytes_to_hex_ff)
qed


lemma strtoul_u32_0_a: "strtoul_u32 ''0,a'' = 0"
  by (simp add: strtoul_u32_def strtoul_16_def isspace_c_def hex_digit_val_def Let_def)

lemma replicate_3: "replicate 3 x = [x, x, x]"
  by (simp add: numeral_eq_Suc)

lemma erased_frame_10:
  assumes "length buf = 256"
  shows "erased_frame (cmd_0717_request 0 10 buf) = frame_10"
proof -
  have a: "cmd_0717_request 0 10 buf ! 10 = 0"
    and b: "cmd_0717_request 0 10 buf ! 11 = 18"
    using assms by (simp_all add: cmd_0717_request_def byte_of16_def Let_def)
  show ?thesis
    unfolding erased_frame_def a b Let_def frame_10_def
    by (simp add: replicate_3)
qed

lemma extract_10:
  assumes "length b0 = 10"
  shows "extract_0717 (frame_10 @ rest) 23 5 0 10 b0 = replicate 10 0xff"
proof -
  obtain x0 x1 x2 x3 x4 x5 x6 x7 x8 x9 where
    b0: "b0 = [x0, x1, x2, x3, x4, x5, x6, x7, x8, x9]"
    using assms by (auto simp: length_Suc_conv numeral_eq_Suc)
  show ?thesis
    unfolding b0 frame_10_def
    by (simp add: extract_0717.simps store_at_def numeral_eq_Suc)
qed

lemma read_10_erased:
  assumes len: "length (g_cmd_buffer s) = 256" and b0: "length b0 = 10"
  shows "fst (cmd_0717_read_memory erased_flash_device 0 10 b0 10 s) = 0 \<and>
         fst (snd (cmd_0717_read_memory erased_flash_device 0 10 b0 10 s)) = replicate 10 0xff"
proof -
  let ?req = "cmd_0717_request 0 10 (g_cmd_buffer s)"
  let ?s0 = "s\<lparr>g_cmd_buffer := ?req\<rparr>"
  let ?s1 = "?s0\<lparr>sent := sent ?s0 @ [?req], n_out := n_out ?s0 + 1\<rparr>"
  let ?s2 = "?s1\<lparr>n_in := n_in ?s1 + 1\<rparr>"
  let ?s3 = "?s2\<lparr>g_cmd_buffer := store_at (g_cmd_buffer ?s2) 0 frame_10\<rparr>"
  have lr: "length ?req = 256" using len by (simp add: cmd_0717_request_length)
  have bo: "bulk_out erased_flash_device (take 256 (g_cmd_buffer ?s0)) ?s0 = (True, ?s1)"
    using lr by (simp add: bulk_out_def erased_flash_device_def)
  have bi: "bulk_in erased_flash_device 256 ?s1 = (Inr frame_10, ?s2)"
    using erased_frame_10 [OF len]
    by (simp add: bulk_in_def last_request_def erased_flash_device_def) (simp add: frame_10_def)
  have l23: "length frame_10 = 23" by (simp add: frame_10_def)
  have g3: "g_cmd_buffer ?s3 = frame_10 @ drop 23 ?req"
    by (simp add: store_at_def l23)
  have te: "4 + uint (push_bit 8 (ucast (g_cmd_buffer ?s3 ! 2)) OR ucast (g_cmd_buffer ?s3 ! 3) :: u16) = 23"
    unfolding g3 by (simp add: frame_10_def)
  have rm: "recv_more erased_flash_device 23 23 2 ?s3 = (Some 23, ?s3)"
    by (rule recv_more_done) simp
  have va: "fst (validate_response (g_cmd_buffer ?s3) 23 (5 + uint (10 :: u16))) = 0"
    unfolding g3 by (simp add: validate_response_def frame_10_def)
  have ex: "extract_0717 (g_cmd_buffer ?s3) 23 5 0 10 b0 = replicate 10 0xff"
    unfolding g3 by (rule extract_10 [OF b0])
  have "cmd_0717_read_memory erased_flash_device 0 10 b0 10 s = (0, replicate 10 0xff, ?s3)"
    unfolding cmd_0717_read_memory_def Let_def bo
    using bi te rm va ex l23 by simp
  then show ?thesis by simp
qed

lemma handle_read_memory_0_a:
  assumes "length (g_cmd_buffer s) = 256"
  shows "fst (handle_read_memory erased_flash_device always_alloc ''0,a'' s) =
         replicate 20 CHR ''f''"
proof -
  have sc: "strchr ''0,a'' CHR '','' = Some '',a''" by (simp add: strchr_def c_str_def)
  have ub: "length (uninit_buffer erased_flash_device (n_in s) 10) = 10"
    by (simp add: uninit_buffer_def)
  obtain r b s1 where
    eq: "cmd_0717_read_memory erased_flash_device 0 10
           (uninit_buffer erased_flash_device (n_in s) 10) 10 s = (r, b, s1)"
    by (metis surj_pair)
  with read_10_erased [OF assms ub] have rb: "r = 0" "b = replicate 10 0xff" by simp_all
  show ?thesis
    by (simp add: handle_read_memory_def sc strtoul_u32_0_a strtoul_u32_a Let_def always_alloc_def
          eq rb bytes_to_hex_ff)
qed

lemma pod_init_length: "length (g_cmd_buffer pod_init) = 256"
  by (simp add: pod_init_def)


text \<open>
  Claim C9, as the code has it. The length of an \<^verbatim>\<open>m\<close> packet is parsed as
  hexadecimal, so against erased flash the reply to \<^verbatim>\<open>m 0,10\<close> is 32 characters
  \<open>f\<close> (16 bytes); the 20-character reply of ten bytes belongs to \<^verbatim>\<open>m 0,a\<close>.
\<close>

theorem C9_m_0_10_erased:
  assumes "length (g_cmd_buffer s) = 256"
  shows "fst (handle_read_memory erased_flash_device always_alloc ''0,10'' s) =
           replicate 32 CHR ''f'' \<and>
         fst (handle_read_memory erased_flash_device always_alloc ''0,a'' s) =
           ''ffffffffffffffffffff''"
  using handle_read_memory_0_10 [OF assms] handle_read_memory_0_a [OF assms]
  by (simp add: numeral_eq_Suc)


theorem C9_m_0_10_erased_witness:
  "fst (handle_read_memory erased_flash_device always_alloc ''0,10'' pod_init) =
     replicate 32 CHR ''f'' \<and>
   fst (handle_read_memory erased_flash_device always_alloc ''0,a'' pod_init) =
     ''ffffffffffffffffffff''"
  using C9_m_0_10_erased [OF pod_init_length] .


text \<open>
  Claim C9 as stated fails: the reply to \<^verbatim>\<open>m 0,10\<close> against erased flash has 32
  characters and is not the 20-character string.
\<close>

theorem C9_m_0_10_not_20_chars:
  "length (fst (handle_read_memory erased_flash_device always_alloc ''0,10'' pod_init)) = 32 \<and>
   fst (handle_read_memory erased_flash_device always_alloc ''0,10'' pod_init) \<noteq>
     ''ffffffffffffffffffff''"
proof -
  have eq: "fst (handle_read_memory erased_flash_device always_alloc ''0,10'' pod_init) =
        replicate 32 CHR ''f''"
    by (rule handle_read_memory_0_10 [OF pod_init_length])
  then have l: "length (fst (handle_read_memory erased_flash_device always_alloc ''0,10'' pod_init)) = 32"
    by simp
  have "fst (handle_read_memory erased_flash_device always_alloc ''0,10'' pod_init) \<noteq>
     ''ffffffffffffffffffff''"
  proof
    assume "fst (handle_read_memory erased_flash_device always_alloc ''0,10'' pod_init) =
      ''ffffffffffffffffffff''"
    then have "length (fst (handle_read_memory erased_flash_device always_alloc ''0,10'' pod_init)) = 20"
      by simp
    with l show False by simp
  qed
  with l show ?thesis by simp
qed

lemma clamp_len:
  fixes len0 :: u32
  assumes "251 < unat len0"
  shows "251 < unat (ucast (if 2048 < len0 then 2048 else len0) :: u16)"
proof (cases "2048 < len0")
  case True
  then show ?thesis by simp
next
  case False
  then have "unat len0 \<le> 2048" by (simp add: word_less_nat_alt)
  then have "unat (ucast len0 :: u16) = unat len0"
    by (simp add: unsigned_ucast_eq take_bit_nat_eq_self)
  with assms False show ?thesis by simp
qed

text \<open>
  Claim C10. The length is clamped to 2048, but the clamped read is passed to
  \<^verbatim>\<open>cmd_0717_read_memory\<close> in one piece, which never holds more than 256 received
  bytes and asks for at least \<open>5 + length\<close> of them. Whatever the pod answers, an
  \<^verbatim>\<open>m\<close> packet whose length exceeds 251 is answered with an error (\<^verbatim>\<open>E05\<close>, or
  \<^verbatim>\<open>E0c\<close> when the allocation fails), never with data.
\<close>

theorem C10_read_memory_long_request_fails:
  assumes "strchr data CHR '','' = Some comma" and "251 < unat (strtoul_u32 (tl comma))"
  shows "fst (handle_read_memory dev alloc data s) = error_reply 5 \<or>
         fst (handle_read_memory dev alloc data s) = error_reply 12"
proof -
  let ?len = "if 2048 < strtoul_u32 (tl comma) then 2048 else strtoul_u32 (tl comma)"
  obtain r b s1 where
    eq: "cmd_0717_read_memory dev (strtoul_u32 data) (ucast ?len)
           (uninit_buffer dev (n_in s) (unat ?len)) (uint ?len) s = (r, b, s1)"
    by (metis surj_pair)
  have "r = - 1"
    using cmd_0717_read_memory_too_long [OF clamp_len [OF assms(2)], of dev "strtoul_u32 data"
        "uninit_buffer dev (n_in s) (unat ?len)" "uint ?len" s] eq
    by simp
  with eq show ?thesis
    using assms(1) by (simp add: handle_read_memory_def Let_def)
qed

lemma strchr_0_801: "strchr ''0,801'' CHR '','' = Some '',801''"
  by (simp add: strchr_def c_str_def)

lemma strtoul_u32_0_801: "strtoul_u32 ''0,801'' = 0"
  by (simp add: strtoul_u32_def strtoul_16_def isspace_c_def hex_digit_val_def Let_def)

theorem C10_read_memory_long_request_fails_witness:
  "fst (handle_read_memory erased_flash_device always_alloc ''0,801'' pod_init) = ''E05''"
proof -
  have big: "251 < unat (strtoul_u32 (tl '',801''))"
    by (simp add: strtoul_u32_801)
  have e5: "error_reply 5 = ''E05''" and e12: "error_reply 12 = ''E0c''"
    by (simp_all add: error_reply_def hex_byte_def hex_char_def)
  obtain r b s1 where
    eq: "cmd_0717_read_memory erased_flash_device 0 2048
           (uninit_buffer erased_flash_device (n_in pod_init) 2048) 2048 pod_init = (r, b, s1)"
    by (metis surj_pair)
  have "r = - 1"
    using cmd_0717_read_memory_too_long [of 2048 erased_flash_device 0
        "uninit_buffer erased_flash_device (n_in pod_init) 2048" 2048 pod_init] eq
    by simp
  with eq have direct:
    "fst (handle_read_memory erased_flash_device always_alloc ''0,801'' pod_init) = ''E05''"
    by (simp add: handle_read_memory_def Let_def strchr_0_801 strtoul_u32_801 strtoul_u32_0_801
          always_alloc_def e5)
  from C10_read_memory_long_request_fails [OF strchr_0_801 big, of erased_flash_device always_alloc pod_init]
    direct
  show ?thesis by simp
qed



text \<open>
  Claim C4. The table-driven \<^verbatim>\<open>xcrc32\<close> equals the bit-serial CRC-32 with polynomial
  0x04C11DB7, most significant bit first, no final xor, for every byte array and every
  initial value. When the qCRC read of the target succeeds, the reply is \<open>C\<close> followed
  by the lower-case hexadecimal of that CRC, started at 0xFFFFFFFF, over the bytes read.
\<close>

theorem C4_xcrc32_qcrc:
  "xcrc32 buf init = crc_ref buf init \<and>
   (strchr params CHR '','' = Some comma \<and> alloc (unat (strtoul_u32 (tl comma))) \<and>
    qcrc_read dev (strtoul_u32 params) (unat (strtoul_u32 (tl comma))) 0
      (uninit_buffer dev (n_in s) (unat (strtoul_u32 (tl comma)))) s = (Some buffer, s')
    \<longrightarrow> handle_query_crc dev alloc params s =
          (CHR ''C'' # fmt_x (unat (crc_ref (take (unat (strtoul_u32 (tl comma))) buffer) 0xFFFFFFFF)),
           s'))"
  by (simp add: xcrc32_crc_ref handle_query_crc_def Let_def)

lemma replicate_16: "replicate 16 x = [x, x, x, x, x, x, x, x, x, x, x, x, x, x, x, x]"
  by (simp add: numeral_eq_Suc)

lemma crc_ref_16_ff: "crc_ref (replicate 16 0xff) 0xFFFFFFFF = 0xa79c3203"
  unfolding replicate_16
  by (simp add: crc_ref_byte_def funpow8 crc_bit_step_def crc_poly_def)

lemma fmt_x_crc: "fmt_x 2812031491 = ''a79c3203''"
  by (simp add: fmt_x.simps hex_char_def)

lemma qcrc_read_16_erased:
  assumes "length (g_cmd_buffer s) = 256" and "length b0 = 16"
  shows "qcrc_read erased_flash_device 0 16 0 b0 s =
         (Some (replicate 16 0xff), snd (snd (cmd_0717_read_memory erased_flash_device 0 16 b0 16 s)))"
proof -
  obtain r b s1 where
    eq: "cmd_0717_read_memory erased_flash_device 0 16 b0 16 s = (r, b, s1)"
    by (metis surj_pair)
  with read_16_erased [OF assms] have rb: "r = 0" "b = replicate 16 0xff" by simp_all
  have stop: "qcrc_read erased_flash_device 0 16 16 b s1 = (Some b, s1)" for b s1
    by (subst qcrc_read.simps) simp
  show ?thesis
    by (subst qcrc_read.simps) (simp add: eq rb stop)
qed

theorem C4_xcrc32_qcrc_witness:
  "xcrc32 [0x31, 0x32, 0x33, 0x34, 0x35, 0x36, 0x37, 0x38, 0x39] 0xFFFFFFFF =
     crc_ref [0x31, 0x32, 0x33, 0x34, 0x35, 0x36, 0x37, 0x38, 0x39] 0xFFFFFFFF \<and>
   fst (handle_query_crc erased_flash_device always_alloc ''0,10'' pod_init) = ''Ca79c3203''"
proof -
  have sc: "strchr ''0,10'' CHR '','' = Some '',10''" by (simp add: strchr_def c_str_def)
  have len: "unat (strtoul_u32 (tl '',10'')) = 16" by (simp add: strtoul_u32_10)
  have al: "always_alloc (unat (strtoul_u32 (tl '',10'')))" by (simp add: always_alloc_def)
  have ub: "length (uninit_buffer erased_flash_device (n_in pod_init) 16) = 16"
    by (simp add: uninit_buffer_def)
  let ?s' = "snd (snd (cmd_0717_read_memory erased_flash_device 0 16
                  (uninit_buffer erased_flash_device (n_in pod_init) 16) 16 pod_init))"
  have rd: "qcrc_read erased_flash_device (strtoul_u32 ''0,10'') (unat (strtoul_u32 (tl '',10''))) 0
      (uninit_buffer erased_flash_device (n_in pod_init) (unat (strtoul_u32 (tl '',10'')))) pod_init =
      (Some (replicate 16 0xff), ?s')"
    unfolding len strtoul_u32_0_10 by (rule qcrc_read_16_erased [OF pod_init_length ub])
  note inst = C4_xcrc32_qcrc [of "[0x31, 0x32, 0x33, 0x34, 0x35, 0x36, 0x37, 0x38, 0x39]" "0xFFFFFFFF"
      "''0,10''" "'',10''" always_alloc erased_flash_device pod_init "replicate 16 0xff" ?s']
  have a: "xcrc32 [0x31, 0x32, 0x33, 0x34, 0x35, 0x36, 0x37, 0x38, 0x39] 0xFFFFFFFF =
     crc_ref [0x31, 0x32, 0x33, 0x34, 0x35, 0x36, 0x37, 0x38, 0x39] 0xFFFFFFFF"
    by (rule conjunct1 [OF inst])
  have "handle_query_crc erased_flash_device always_alloc ''0,10'' pod_init =
        (CHR ''C'' # fmt_x (unat (crc_ref (take (unat (strtoul_u32 (tl '',10'')))
            (replicate 16 0xff)) 0xFFFFFFFF)), ?s')"
    using conjunct2 [OF inst] sc al rd by blast
  then have "fst (handle_query_crc erased_flash_device always_alloc ''0,10'' pod_init) =
        CHR ''C'' # fmt_x (unat (crc_ref (take 16 (replicate 16 0xff)) 0xFFFFFFFF))"
    unfolding len by simp
  then have b: "fst (handle_query_crc erased_flash_device always_alloc ''0,10'' pod_init) =
     ''Ca79c3203''"
    by (simp add: crc_ref_16_ff fmt_x_crc)
  from a b show ?thesis by (rule conjI)
qed


section \<open>The vFlash packets and flash programming\<close>

text \<open>
  The model follows one vFlash session from the packet handlers
  (\<^verbatim>\<open>handle_v_command\<close> in m68k-gdbserver.c) through \<^verbatim>\<open>flash_program_region\<close>,
  \<^verbatim>\<open>gpl_flash_program\<close> (flash_gpl.c) and \<^verbatim>\<open>simple_flash_program\<close> (elf_loader.c)
  to \<^verbatim>\<open>flash_program\<close> of the on-target loader (flashloader/flashloader.c). The session
  holds the fields of \<^verbatim>\<open>flash_state\<close> that the write path uses, the loader's
  \<^verbatim>\<open>data_buffer\<close> in SRAM as 256 words, and the bytes the loader has programmed, by flash
  address. Every host operation that can fail (loader initialisation, a
  \<^verbatim>\<open>cmd_07_19\<close> upload, a loader run and its result) asks the environment whether it
  succeeds. The handlers take the packet already split by \<^verbatim>\<open>strchr\<close> and
  \<^verbatim>\<open>strtoul\<close> into the address and the binary payload of \<open>bin_len\<close> bytes; sizes of
  type \<^verbatim>\<open>size_t\<close> are 64 bits wide, so sums with them do not wrap.
\<close>

definition FLASH_SIZE :: nat where
  "FLASH_SIZE = 0x40000"

definition FLASHLOADER_DATA_BUFFER_SIZE :: nat where
  "FLASHLOADER_DATA_BUFFER_SIZE = 0x400"

record flash_session =
  write_buffer :: "u8 list option"
  write_addr :: u32
  write_len :: u32
  write_capacity :: u32
  data_buffer :: "u32 list"
  programmed :: "nat \<Rightarrow> u8 option"
  flash_ops :: nat

type_synonym flash_env = "nat \<Rightarrow> bool"

definition flash_op_ok :: "flash_env \<Rightarrow> flash_session \<Rightarrow> bool \<times> flash_session" where
  "flash_op_ok env fs = (env (flash_ops fs), fs\<lparr>flash_ops := flash_ops fs + 1\<rparr>)"

definition flash_reset_state :: "flash_session \<Rightarrow> flash_session" where
  "flash_reset_state fs =
     fs\<lparr>write_buffer := None, write_addr := 0, write_len := 0, write_capacity := 0\<rparr>"

text \<open>
  The \<^verbatim>\<open>vFlashWrite\<close> branch: an empty payload is acknowledged and ignored; the payload
  is unescaped; the first write that reaches the buffer allocates it, fills it with 0xFF
  and fixes its base address; \<open>offset = addr - write_addr\<close> is computed in 32 bits.
\<close>

definition vflash_write ::
  "(nat \<Rightarrow> bool) \<Rightarrow> u32 \<Rightarrow> u8 list \<Rightarrow> flash_session \<Rightarrow> string \<times> flash_session" where
  "vflash_write alloc addr bin_data fs =
     (let bin_len = length bin_data
      in if bin_len = 0 then (''OK'', fs)
         else if \<not> alloc bin_len then (error_reply 0x0C, fs)
         else
           (let unescaped = rsp_unescaped bin_data;
                actual_len = length unescaped
            in if FLASH_SIZE \<le> unat addr \<or> FLASH_SIZE < unat addr + actual_len
               then (error_reply 0x0E, fs)
               else if write_buffer fs = None \<and> \<not> alloc FLASH_SIZE
               then (error_reply 0x0C, fs\<lparr>write_capacity := of_nat FLASH_SIZE\<rparr>)
               else
                 (let fs1 = (if write_buffer fs = None
                             then fs\<lparr>write_capacity := of_nat FLASH_SIZE,
                                     write_buffer := Some (replicate FLASH_SIZE 0xFF),
                                     write_addr := addr, write_len := 0\<rparr>
                             else fs);
                      offset = addr - write_addr fs1
                  in if unat (write_capacity fs1) < unat offset + actual_len
                     then (error_reply 0x0E, fs1)
                     else
                       (''OK'',
                        fs1\<lparr>write_buffer :=
                               Some (store_at (the (write_buffer fs1)) (unat offset) unescaped),
                             write_len :=
                               (if unat (write_len fs1) < unat offset + actual_len
                                then of_nat (unat offset + actual_len) else write_len fs1)\<rparr>))))"

text \<open>
  \<^verbatim>\<open>simple_flash_program\<close> builds big-endian words from the chunk, \<open>(length + 3) / 4\<close>
  of them; a partial last word starts as 0xFFFFFFFF and receives the bytes that are left.
\<close>

definition word_of_bytes :: "u8 \<Rightarrow> u8 \<Rightarrow> u8 \<Rightarrow> u8 \<Rightarrow> u32" where
  "word_of_bytes b0 b1 b2 b3 =
     push_bit 24 (ucast b0) OR push_bit 16 (ucast b1) OR push_bit 8 (ucast b2) OR ucast b3"

definition put_byte :: "u32 \<Rightarrow> nat \<Rightarrow> u8 \<Rightarrow> u32" where
  "put_byte v k b =
     (v AND NOT (push_bit (24 - 8 * k) 0xFF)) OR push_bit (24 - 8 * k) (ucast b)"

definition chunk_word :: "u8 list \<Rightarrow> nat \<Rightarrow> nat \<Rightarrow> u32" where
  "chunk_word data len i =
     (let offset = i * 4
      in if offset + 4 \<le> len
         then word_of_bytes (data ! offset) (data ! (offset + 1)) (data ! (offset + 2))
                (data ! (offset + 3))
         else foldl (\<lambda>v j. put_byte v (j - offset) (data ! j)) 0xFFFFFFFF [offset..<len])"

fun upload_words :: "flash_env \<Rightarrow> u8 list \<Rightarrow> nat \<Rightarrow> nat \<Rightarrow> nat \<Rightarrow> flash_session \<Rightarrow> bool \<times> flash_session" where
  "upload_words env data len i 0 fs = (True, fs)"
| "upload_words env data len i (Suc n) fs =
     (case flash_op_ok env fs of
        (False, fs1) \<Rightarrow> (False, fs1)
      | (True, fs1) \<Rightarrow>
          upload_words env data len (i + 1) n
            (fs1\<lparr>data_buffer := (data_buffer fs1)[i := chunk_word data len i]\<rparr>))"

text \<open>
  The loader's \<^verbatim>\<open>flash_program(addr, length)\<close>:
  \<^verbatim>\<open>num_words = length / 4; for (i = 0; i < num_words; i++) flash_ptr[i] = data_buffer[i];\<close>
  on the big-endian target, so the most significant byte of a word lands at the lowest
  address.
\<close>

definition program_word :: "(nat \<Rightarrow> u8 option) \<Rightarrow> nat \<Rightarrow> u32 \<Rightarrow> (nat \<Rightarrow> u8 option)" where
  "program_word m a w =
     m(a \<mapsto> ucast (drop_bit 24 w), a + 1 \<mapsto> ucast (drop_bit 16 w),
       a + 2 \<mapsto> ucast (drop_bit 8 w), a + 3 \<mapsto> ucast w)"

definition loader_flash_program :: "u32 \<Rightarrow> u32 \<Rightarrow> flash_session \<Rightarrow> flash_session" where
  "loader_flash_program addr len fs =
     fs\<lparr>programmed :=
          foldl (\<lambda>m i. program_word m (unat addr + 4 * i) (data_buffer fs ! i)) (programmed fs)
            [0..<unat len div 4]\<rparr>"

definition simple_flash_program ::
  "flash_env \<Rightarrow> u32 \<Rightarrow> u8 list \<Rightarrow> u32 \<Rightarrow> flash_session \<Rightarrow> int \<times> flash_session" where
  "simple_flash_program env flash_addr data len fs =
     (if FLASHLOADER_DATA_BUFFER_SIZE < unat len then (- 1, fs)
      else case flash_op_ok env fs of
             (False, fs1) \<Rightarrow> (- 1, fs1)
           | (True, fs1) \<Rightarrow>
               (let num_words = (unat len + 3) div 4
                in case upload_words env data (unat len) 0 num_words fs1 of
                     (False, fs2) \<Rightarrow> (- 1, fs2)
                   | (True, fs2) \<Rightarrow>
                       (case flash_op_ok env fs2 of
                          (False, fs3) \<Rightarrow> (- 1, fs3)
                        | (True, fs3) \<Rightarrow> (0, loader_flash_program flash_addr len fs3))))"

function gpl_flash_program_loop ::
  "flash_env \<Rightarrow> u32 \<Rightarrow> u8 list \<Rightarrow> nat \<Rightarrow> nat \<Rightarrow> flash_session \<Rightarrow> int \<times> flash_session" where
  "gpl_flash_program_loop env addr data len offset fs =
     (if offset < len
      then (let chunk_size = (if FLASHLOADER_DATA_BUFFER_SIZE < len - offset
                              then FLASHLOADER_DATA_BUFFER_SIZE else len - offset)
            in case simple_flash_program env (addr + of_nat offset) (drop offset data)
                      (of_nat chunk_size) fs of
                 (r, fs1) \<Rightarrow>
                   if r \<noteq> 0 then (- 1, fs1)
                   else gpl_flash_program_loop env addr data len (offset + chunk_size) fs1)
      else (0, fs))"
  by pat_completeness auto
termination
  by (relation "measure (\<lambda>(env, addr, data, len, offset, fs). len - offset)")
     (auto simp: FLASHLOADER_DATA_BUFFER_SIZE_def)

definition gpl_flash_program ::
  "flash_env \<Rightarrow> u32 \<Rightarrow> u8 list \<Rightarrow> u32 \<Rightarrow> flash_session \<Rightarrow> int \<times> flash_session" where
  "gpl_flash_program env addr data len fs =
     (if len = 0 then (0, fs)
      else if of_nat FLASH_SIZE < addr + len then (- 1, fs)
      else gpl_flash_program_loop env addr data (unat len) 0 fs)"

definition flash_program_region ::
  "flash_env \<Rightarrow> u32 \<Rightarrow> u8 list \<Rightarrow> u32 \<Rightarrow> flash_session \<Rightarrow> int \<times> flash_session" where
  "flash_program_region env addr data len fs =
     (if of_nat FLASH_SIZE < addr + len then (- 1, fs)
      else case flash_op_ok env fs of
             (False, fs1) \<Rightarrow> (- 1, fs1)
           | (True, fs1) \<Rightarrow>
               (case gpl_flash_program env addr data len fs1 of
                  (r, fs2) \<Rightarrow> if r \<noteq> 0 then (- 1, fs2) else (0, fs2)))"

definition vflash_done :: "flash_env \<Rightarrow> flash_session \<Rightarrow> string \<times> flash_session" where
  "vflash_done env fs =
     (case (case write_buffer fs of
              None \<Rightarrow> (0, fs)
            | Some buf \<Rightarrow>
                if 0 < write_len fs then flash_program_region env (write_addr fs) buf (write_len fs) fs
                else (0, fs)) of
        (r, fs1) \<Rightarrow>
          if r \<noteq> 0 then (error_reply 0x10, flash_reset_state fs1)
          else (''OK'', flash_reset_state fs1))"

definition flash_session_init :: flash_session where
  "flash_session_init =
     \<lparr>write_buffer = None, write_addr = 0, write_len = 0, write_capacity = 0,
      data_buffer = replicate 256 0, programmed = (\<lambda>a. None), flash_ops = 0\<rparr>"

definition all_ok :: flash_env where
  "all_ok k = True"

definition five_bytes :: "u8 list" where
  "five_bytes = [0x11, 0x22, 0x33, 0x44, 0x55]"


text \<open>
  Modelled from the spec: the image the spec promises for a list of writes (address and
  unescaped payload, in packet order): 0xFF overlaid with every payload at its address,
  later writes over earlier ones.
\<close>

definition vflash_image :: "(nat \<times> u8 list) list \<Rightarrow> nat \<Rightarrow> u8" where
  "vflash_image ws a =
     foldl (\<lambda>v w. if fst w \<le> a \<and> a < fst w + length (snd w) then snd w ! (a - fst w) else v)
       0xFF ws"

subsection \<open>A write whose length is not a multiple of four\<close>

definition written_fs :: flash_session where
  "written_fs = flash_session_init\<lparr>write_capacity := 0x40000,
        write_buffer := Some (five_bytes @ replicate 262139 0xFF),
        write_addr := 0, write_len := 5\<rparr>"

declare gpl_flash_program_loop.simps [simp del]

lemma rsp_unescaped_five: "rsp_unescaped five_bytes = five_bytes"
  by (simp add: rsp_unescaped_stream five_bytes_def)

lemma write_five:
  "vflash_write always_alloc 0 five_bytes flash_session_init =
     (''OK'', flash_session_init\<lparr>write_capacity := 0x40000,
        write_buffer := Some (five_bytes @ replicate 262139 0xFF),
        write_addr := 0, write_len := 5\<rparr>)"
  by (simp add: vflash_write_def Let_def rsp_unescaped_five always_alloc_def FLASH_SIZE_def
        flash_session_init_def store_at_def) (simp add: five_bytes_def)


lemma upload_words_2:
  "upload_words env data len i 2 fs =
     (case flash_op_ok env fs of
        (False, fs1) \<Rightarrow> (False, fs1)
      | (True, fs1) \<Rightarrow>
          (case flash_op_ok env (fs1\<lparr>data_buffer := (data_buffer fs1)[i := chunk_word data len i]\<rparr>) of
             (False, fs2) \<Rightarrow> (False, fs2)
           | (True, fs2) \<Rightarrow>
               (True, fs2\<lparr>data_buffer := (data_buffer fs2)[i + 1 := chunk_word data len (i + 1)]\<rparr>)))"
  by (simp add: numeral_2_eq_2 split: prod.splits bool.splits)

lemma chunk_word_0: "chunk_word (five_bytes @ r) 5 0 = 0x11223344"
  by (simp add: chunk_word_def word_of_bytes_def five_bytes_def)

lemma chunk_word_1: "chunk_word (five_bytes @ r) 5 1 = 0x55FFFFFF"
  by (simp add: chunk_word_def put_byte_def five_bytes_def upt_rec)

lemma chunk_word_Suc0: "chunk_word (five_bytes @ r) 5 (Suc 0) = 0x55FFFFFF"
  using chunk_word_1 [of r] by simp

lemma simple_flash_program_five:
  "simple_flash_program all_ok 0 (five_bytes @ r) 5 fs =
     (0, fs\<lparr>flash_ops := flash_ops fs + 4,
            data_buffer := (data_buffer fs)[0 := 0x11223344, 1 := 0x55FFFFFF],
            programmed := program_word (programmed fs) 0 ((data_buffer fs)[0 := 0x11223344, 1 := 0x55FFFFFF] ! 0)\<rparr>)"
  by (simp add: simple_flash_program_def FLASHLOADER_DATA_BUFFER_SIZE_def flash_op_ok_def all_ok_def
        Let_def upload_words_2 chunk_word_0 chunk_word_Suc0 loader_flash_program_def upt_rec)

lemma done_five:
  "fst (vflash_done all_ok written_fs) = ''OK'' \<and>
   programmed (snd (vflash_done all_ok written_fs)) 3 = Some 0x44 \<and>
   programmed (snd (vflash_done all_ok written_fs)) 4 = None"
proof -
  let ?buf = "five_bytes @ replicate 262139 0xFF"
  have stop: "gpl_flash_program_loop all_ok 0 ?buf 5 5 fs = (0, fs)" for fs
    by (subst gpl_flash_program_loop.simps) simp
  have loop: "gpl_flash_program_loop all_ok 0 ?buf 5 0 fs =
      (0, fs\<lparr>flash_ops := flash_ops fs + 4,
            data_buffer := (data_buffer fs)[0 := 0x11223344, 1 := 0x55FFFFFF],
            programmed := program_word (programmed fs) 0 ((data_buffer fs)[0 := 0x11223344, 1 := 0x55FFFFFF] ! 0)\<rparr>)" for fs
    by (subst gpl_flash_program_loop.simps)
       (simp add: FLASHLOADER_DATA_BUFFER_SIZE_def simple_flash_program_five stop)
  show ?thesis
    by (simp add: vflash_done_def written_fs_def flash_program_region_def FLASH_SIZE_def
          flash_op_ok_def all_ok_def gpl_flash_program_def loop flash_reset_state_def
          flash_session_init_def program_word_def)
qed

text \<open>
  Claim C2 at a five-byte write. \<^verbatim>\<open>vFlashWrite:0:\<close> with payload 11 22 33 44 55 and
  \<^verbatim>\<open>vFlashDone\<close> are both answered OK. The host uploads the words 0x11223344 and
  0x55FFFFFF and runs the loader with length 5; the loader programs \<open>5 / 4 = 1\<close>
  word. Address 3 holds 0x44, address 4 is never programmed, and the promised image has
  0x55 there.
\<close>

theorem C2_partial_word_not_programmed:
  "fst (vflash_write always_alloc 0 five_bytes flash_session_init) = ''OK'' \<and>
   fst (vflash_done all_ok (snd (vflash_write always_alloc 0 five_bytes flash_session_init))) = ''OK'' \<and>
   programmed (snd (vflash_done all_ok
      (snd (vflash_write always_alloc 0 five_bytes flash_session_init)))) 3 = Some 0x44 \<and>
   programmed (snd (vflash_done all_ok
      (snd (vflash_write always_alloc 0 five_bytes flash_session_init)))) 4 = None \<and>
   vflash_image [(0, five_bytes)] 4 = 0x55"
proof -
  have w: "vflash_write always_alloc 0 five_bytes flash_session_init = (''OK'', written_fs)"
    unfolding written_fs_def by (rule write_five)
  have i: "vflash_image [(0, five_bytes)] 4 = 0x55"
    by (simp add: vflash_image_def five_bytes_def)
  show ?thesis
    unfolding w using done_five i by simp
qed


section \<open>The persistent-buffer discipline (openlink_protocol.c, every command builder)\<close>

text \<open>
  Every BDM command of openlink_protocol.c is built in \<^verbatim>\<open>g_cmd_buffer\<close> by assignments
  to \<^verbatim>\<open>cmd[i]\<close> and is then handed, 256 bytes long, to the OUT endpoint: by
  \<^verbatim>\<open>send_aa_command\<close>, by \<^verbatim>\<open>send_aa_command_no_response\<close> or by the builder's own
  \<^verbatim>\<open>libusb_bulk_transfer\<close>. The requests of \<^verbatim>\<open>cmd_enter_mode\<close>,
  \<^verbatim>\<open>cmd_07_02_bdm_go\<close>, \<^verbatim>\<open>cmd_07_14_write_bdm_reg\<close>, \<^verbatim>\<open>cmd_bdm_halt\<close>,
  \<^verbatim>\<open>cmd_bdm_freeze\<close>, \<^verbatim>\<open>cmd_07_12\<close>, \<^verbatim>\<open>cmd_07_19\<close> and
  \<^verbatim>\<open>cmd_0717_read_memory\<close> are defined above; the requests of all the other builders
  follow, in the order of the source file. \<^verbatim>\<open>cmd_download_block_chunk\<close> and
  \<^verbatim>\<open>cmd_download_block_single\<close> build a \<^verbatim>\<open>bb 66\<close> frame in a buffer of their
  own and do not touch the command buffer. \<^verbatim>\<open>cmd_bdm_reinit_after_execution\<close> builds
  four requests in line, with the assignments of \<^verbatim>\<open>cmd_enter_mode\<close> (modes 0xf8, 0xf0,
  0xf8) and of \<^verbatim>\<open>cmd_enable_memory_access\<close> (parameter 0x00). The other functions of
  the file (\<^verbatim>\<open>sram_pre_init\<close>, \<^verbatim>\<open>target_init_full\<close> and so on) only call the
  builders.
\<close>

definition cmd_write_memory_byte_addr_request :: "u32 \<Rightarrow> u8 \<Rightarrow> u8 list \<Rightarrow> u8 list" where
  "cmd_write_memory_byte_addr_request addr data cmd =
     cmd[0 := 0xaa, 1 := 0x55, 2 := 0x00, 3 := 0x0a, 4 := 0x07, 5 := 0x15, 6 := 0x18, 7 := 0x00,
         8 := byte_of addr 24, 9 := byte_of addr 16, 10 := byte_of addr 8, 11 := byte_of addr 0,
         12 := 0x00, 13 := data]"

definition cmd_read_memory_byte_addr_request :: "u32 \<Rightarrow> u8 list \<Rightarrow> u8 list" where
  "cmd_read_memory_byte_addr_request addr cmd =
     cmd[0 := 0xaa, 1 := 0x55, 2 := 0x00, 3 := 0x04, 4 := 0x07, 5 := 0x13,
         6 := byte_of addr 24, 7 := byte_of addr 16, 8 := byte_of addr 8, 9 := byte_of addr 0]"

definition cmd_write_memory_word_addr_request :: "u32 \<Rightarrow> u16 \<Rightarrow> u8 list \<Rightarrow> u8 list" where
  "cmd_write_memory_word_addr_request addr data cmd =
     cmd[0 := 0xaa, 1 := 0x55, 2 := 0x00, 3 := 0x06, 4 := 0x07, 5 := 0x16,
         6 := byte_of addr 24, 7 := byte_of addr 16, 8 := byte_of addr 8, 9 := byte_of addr 0,
         10 := byte_of16 data 8, 11 := byte_of16 data 0]"

definition cmd_read_memory_word_addr_request :: "u32 \<Rightarrow> u8 list \<Rightarrow> u8 list" where
  "cmd_read_memory_word_addr_request addr cmd =
     cmd[0 := 0xaa, 1 := 0x55, 2 := 0x00, 3 := 0x04, 4 := 0x07, 5 := 0x13,
         6 := byte_of addr 24, 7 := byte_of addr 16, 8 := byte_of addr 8, 9 := byte_of addr 0]"

definition cmd_write_memory_short_addr_request :: "u16 \<Rightarrow> u32 \<Rightarrow> u8 list \<Rightarrow> u8 list" where
  "cmd_write_memory_short_addr_request addr data cmd =
     cmd[0 := 0xaa, 1 := 0x55, 2 := 0x00, 3 := 0x08, 4 := 0x07, 5 := 0x16,
         6 := byte_of16 addr 8, 7 := byte_of16 addr 0,
         8 := byte_of data 24, 9 := byte_of data 16, 10 := byte_of data 8, 11 := byte_of data 0]"

definition cmd_write_memory_long_addr_request :: "u32 \<Rightarrow> u32 \<Rightarrow> u8 list \<Rightarrow> u8 list" where
  "cmd_write_memory_long_addr_request addr data cmd =
     cmd[0 := 0xaa, 1 := 0x55, 2 := 0x00, 3 := 0x0A, 4 := 0x07, 5 := 0x16,
         6 := byte_of addr 24, 7 := byte_of addr 16, 8 := byte_of addr 8, 9 := byte_of addr 0,
         10 := byte_of data 24, 11 := byte_of data 16, 12 := byte_of data 8, 13 := byte_of data 0]"

definition cmd_set_memory_window_request :: "u32 \<Rightarrow> u8 list \<Rightarrow> u8 list" where
  "cmd_set_memory_window_request window_addr cmd =
     cmd[0 := 0xaa, 1 := 0x55, 2 := 0x00, 3 := 0x05, 4 := 0x07, 5 := 0x10,
         6 := byte_of window_addr 24, 7 := byte_of window_addr 16, 8 := byte_of window_addr 8,
         9 := byte_of window_addr 0]"

definition cmd_read_memory_long_addr_request :: "u32 \<Rightarrow> u8 list \<Rightarrow> u8 list" where
  "cmd_read_memory_long_addr_request addr cmd =
     cmd[0 := 0xaa, 1 := 0x55, 2 := 0x00, 3 := 0x06, 4 := 0x07, 5 := 0x13,
         6 := byte_of addr 24, 7 := byte_of addr 16, 8 := byte_of addr 8, 9 := byte_of addr 0]"

definition cmd_071b_request :: "u32 \<Rightarrow> u16 \<Rightarrow> u8 list \<Rightarrow> u8 list" where
  "cmd_071b_request addr len cmd =
     cmd[0 := 0xaa, 1 := 0x55, 2 := 0x00, 3 := 0x08, 4 := 0x07, 5 := 0x1b,
         6 := byte_of addr 24, 7 := byte_of addr 16, 8 := byte_of addr 8, 9 := byte_of addr 0,
         10 := byte_of16 len 8, 11 := byte_of16 len 0]"

definition cmd_bdm_resume_request :: "u8 list \<Rightarrow> u8 list" where
  "cmd_bdm_resume_request cmd =
     cmd[0 := 0xaa, 1 := 0x55, 2 := 0x00, 3 := 0x04, 4 := 0x04, 5 := 0x40, 6 := 0x58, 7 := 0x04]"

text \<open>\<^verbatim>\<open>cmd[7] = 0x42 | (drc & 0x1F); cmd[11] = drc & 0xFF;\<close> with \<open>drc\<close> of 16 bits.\<close>

definition cmd_07_14_write_debug_reg_request :: "u16 \<Rightarrow> u32 \<Rightarrow> u8 list \<Rightarrow> u8 list" where
  "cmd_07_14_write_debug_reg_request drc val cmd =
     cmd[0 := 0xaa, 1 := 0x55, 2 := 0x00, 3 := 0x0c, 4 := 0x07, 5 := 0x14,
         6 := 0x2C, 7 := ucast (0x42 OR (drc AND 0x1F)), 8 := 0x00, 9 := 0x00,
         10 := 0x00, 11 := byte_of16 drc 0,
         12 := byte_of val 24, 13 := byte_of val 16, 14 := byte_of val 8, 15 := byte_of val 0]"

definition cmd_enable_memory_access_request :: "u8 \<Rightarrow> u8 list \<Rightarrow> u8 list" where
  "cmd_enable_memory_access_request param cmd =
     cmd[0 := 0xaa, 1 := 0x55, 2 := 0x00, 3 := 0x03, 4 := 0x07, 5 := 0x0a, 6 := param]"

definition cmd_read_memory_block_request :: "u32 \<Rightarrow> u8 list \<Rightarrow> u8 list" where
  "cmd_read_memory_block_request addr cmd =
     cmd[0 := 0xaa, 1 := 0x55, 2 := 0x00, 3 := 0x08, 4 := 0x07, 5 := 0x17,
         6 := byte_of addr 24, 7 := byte_of addr 16, 8 := byte_of addr 8, 9 := byte_of addr 0,
         10 := 0x01, 11 := 0x00]"

text \<open>
  \<^verbatim>\<open>cmd_07_17_setup_window\<close>: after the twelve request bytes,
  \<^verbatim>\<open>for (int i = 12; i < 256; i += 2) { cmd[i] = 0xff; if (i+1 < 256) cmd[i+1] = 0x00; }\<close>
\<close>

definition cmd_07_17_setup_window_request :: "u32 \<Rightarrow> u8 list \<Rightarrow> u8 list" where
  "cmd_07_17_setup_window_request addr cmd =
     pad_pairs 12 0xff 0x00
       (cmd[0 := 0xaa, 1 := 0x55, 2 := 0x00, 3 := 0x08, 4 := 0x07, 5 := 0x17,
            6 := byte_of addr 24, 7 := byte_of addr 16, 8 := byte_of addr 8, 9 := byte_of addr 0,
            10 := 0x00, 11 := 0x04])"

definition cmd_07_1b_request :: "u32 \<Rightarrow> u16 \<Rightarrow> u8 list \<Rightarrow> u8 list" where
  "cmd_07_1b_request addr sz cmd =
     cmd[0 := 0xaa, 1 := 0x55, 2 := 0x00, 3 := 0x08, 4 := 0x07, 5 := 0x1b,
         6 := byte_of addr 24, 7 := byte_of addr 16, 8 := byte_of addr 8, 9 := byte_of addr 0,
         10 := byte_of16 sz 8, 11 := byte_of16 sz 0]"

text \<open>
  \<^verbatim>\<open>cmd_07_1e\<close> and \<^verbatim>\<open>cmd_071e_write_sram\<close>: after the request bytes,
  \<^verbatim>\<open>for (int i = 13; i < 256; i += 2) { cmd[i] = 0x00; if (i+1 < 256) cmd[i+1] = 0xff; }\<close>,
  the second one from \<open>i = 16\<close>.
\<close>

definition cmd_07_1e_request :: "u16 \<Rightarrow> u32 \<Rightarrow> u8 \<Rightarrow> u8 list \<Rightarrow> u8 list" where
  "cmd_07_1e_request p1 p2 p3 cmd =
     pad_pairs 13 0x00 0xff
       (cmd[0 := 0xaa, 1 := 0x55, 2 := 0x00, 3 := 0x09, 4 := 0x07, 5 := 0x1e,
            6 := byte_of16 p1 8, 7 := byte_of16 p1 0,
            8 := byte_of p2 24, 9 := byte_of p2 16, 10 := byte_of p2 8, 11 := byte_of p2 0,
            12 := p3])"

definition cmd_071e_write_sram_request :: "u32 \<Rightarrow> u32 \<Rightarrow> u8 list \<Rightarrow> u8 list" where
  "cmd_071e_write_sram_request addr data cmd =
     pad_pairs 16 0x00 0xff
       (cmd[0 := 0xaa, 1 := 0x55, 2 := 0x00, 3 := 0x0c, 4 := 0x07, 5 := 0x1e, 6 := 0x00, 7 := 0x04,
            8 := byte_of addr 24, 9 := byte_of addr 16, 10 := byte_of addr 8, 11 := byte_of addr 0,
            12 := byte_of data 24, 13 := byte_of data 16, 14 := byte_of data 8,
            15 := byte_of data 0])"

definition cmd_read_bdm_reg_request :: "u16 \<Rightarrow> u8 list \<Rightarrow> u8 list" where
  "cmd_read_bdm_reg_request reg cmd =
     cmd[0 := 0xaa, 1 := 0x55, 2 := 0x00, 3 := 0x04, 4 := 0x07, 5 := 0x13,
         6 := byte_of16 reg 8, 7 := byte_of16 reg 0]"

definition cmd_write_bdm_reg_request :: "u16 \<Rightarrow> u32 \<Rightarrow> u8 list \<Rightarrow> u8 list" where
  "cmd_write_bdm_reg_request reg data cmd =
     cmd[0 := 0xaa, 1 := 0x55, 2 := 0x00, 3 := 0x08, 4 := 0x07, 5 := 0x16,
         6 := byte_of16 reg 8, 7 := byte_of16 reg 0,
         8 := byte_of data 24, 9 := byte_of data 16, 10 := byte_of data 8, 11 := byte_of data 0]"

definition cmd_07_11_request :: "u16 \<Rightarrow> u8 \<Rightarrow> u8 \<Rightarrow> u8 \<Rightarrow> u8 \<Rightarrow> u8 list \<Rightarrow> u8 list" where
  "cmd_07_11_request reg p1 p2 p3 p4 cmd =
     cmd[0 := 0xaa, 1 := 0x55, 2 := 0x00, 3 := 0x08, 4 := 0x07, 5 := 0x11,
         6 := byte_of16 reg 8, 7 := byte_of16 reg 0, 8 := p1, 9 := p2, 10 := p3, 11 := p4]"

text \<open>
  \<^verbatim>\<open>cmd_07_11_read_bdm_reg\<close>: after the twelve request bytes,
  \<^verbatim>\<open>for (int i = 12; i < 256; i += 2) { cmd[i] = 0xff; if (i+1 < 256) cmd[i+1] = 0x00; }\<close>
\<close>

definition cmd_07_11_read_bdm_reg_request :: "u16 \<Rightarrow> u16 \<Rightarrow> u8 list \<Rightarrow> u8 list" where
  "cmd_07_11_read_bdm_reg_request window reg cmd =
     pad_pairs 12 0xff 0x00
       (cmd[0 := 0xaa, 1 := 0x55, 2 := 0x00, 3 := 0x08, 4 := 0x07, 5 := 0x11,
            6 := byte_of16 window 8, 7 := byte_of16 window 0, 8 := 0x00, 9 := 0x00,
            10 := byte_of16 reg 8, 11 := byte_of16 reg 0])"

definition cmd_07_16_write_pc_request :: "u32 \<Rightarrow> u8 list \<Rightarrow> u8 list" where
  "cmd_07_16_write_pc_request pc_value cmd =
     cmd[0 := 0xaa, 1 := 0x55, 2 := 0x00, 3 := 0x08, 4 := 0x07, 5 := 0x16, 6 := 0x08, 7 := 0x0f,
         8 := byte_of pc_value 24, 9 := byte_of pc_value 16, 10 := byte_of pc_value 8,
         11 := byte_of pc_value 0]"

text \<open>
  \<^verbatim>\<open>cmd_07_15(handle, reg, params, param_count)\<close>: the parameter array is a list and
  \<open>param_count\<close> is its length. \<^verbatim>\<open>int length = 4 + param_count\<close> goes into bytes 2
  and 3 as \<^verbatim>\<open>(length >> 8) & 0xFF\<close> and \<^verbatim>\<open>length & 0xFF\<close>, and
  \<^verbatim>\<open>for (int i = 0; i < param_count && i < 248; i++) cmd[8 + i] = params[i];\<close>
\<close>

definition cmd_07_15_request :: "u16 \<Rightarrow> u8 list \<Rightarrow> u8 list \<Rightarrow> u8 list" where
  "cmd_07_15_request reg params cmd =
     (let len = 4 + length params
      in fold (\<lambda>i c. c[8 + i := params ! i]) [0..<min (length params) 248]
           (cmd[0 := 0xaa, 1 := 0x55, 2 := of_nat (len div 256 mod 256), 3 := of_nat (len mod 256),
                4 := 0x07, 5 := 0x15, 6 := byte_of16 reg 8, 7 := byte_of16 reg 0]))"

definition cmd_07_95_request :: "u8 list \<Rightarrow> u8 list" where
  "cmd_07_95_request cmd = cmd[0 := 0xaa, 1 := 0x55, 2 := 0x00, 3 := 0x02, 4 := 0x07, 5 := 0x95]"

definition cmd_bdm_cmd_00_02_request :: "u8 list \<Rightarrow> u8 list" where
  "cmd_bdm_cmd_00_02_request cmd =
     cmd[0 := 0xaa, 1 := 0x55, 2 := 0x00, 3 := 0x04, 4 := 0x04, 5 := 0x40, 6 := 0x00, 7 := 0x02]"

definition cmd_07_14_request :: "u16 \<Rightarrow> u8 \<Rightarrow> u8 \<Rightarrow> u8 \<Rightarrow> u8 \<Rightarrow> u32 \<Rightarrow> u8 list \<Rightarrow> u8 list" where
  "cmd_07_14_request reg p1 p2 p3 p4 addr cmd =
     cmd[0 := 0xaa, 1 := 0x55, 2 := 0x00, 3 := 0x0C, 4 := 0x07, 5 := 0x14,
         6 := byte_of16 reg 8, 7 := byte_of16 reg 0, 8 := p1, 9 := p2, 10 := p3, 11 := p4,
         12 := byte_of addr 24, 13 := byte_of addr 16, 14 := byte_of addr 8, 15 := byte_of addr 0]"

definition cmd_07_10_request :: "u16 \<Rightarrow> u8 list \<Rightarrow> u8 list" where
  "cmd_07_10_request reg cmd =
     cmd[0 := 0xaa, 1 := 0x55, 2 := 0x00, 3 := 0x05, 4 := 0x07, 5 := 0x10,
         6 := 0x00, 7 := byte_of16 reg 8, 8 := byte_of16 reg 0]"

definition cmd_07_17_request :: "u8 list \<Rightarrow> u8 list" where
  "cmd_07_17_request cmd =
     cmd[0 := 0xaa, 1 := 0x55, 2 := 0x00, 3 := 0x08, 4 := 0x07, 5 := 0x17,
         6 := 0x20, 7 := 0x00, 8 := 0x00, 9 := 0x0C, 10 := 0x00, 11 := 0x04]"

definition cmd_01_0b_request :: "u8 list \<Rightarrow> u8 list" where
  "cmd_01_0b_request cmd = cmd[0 := 0xaa, 1 := 0x55, 2 := 0x00, 3 := 0x02, 4 := 0x01, 5 := 0x0b]"

definition cmd_07_a2_request :: "u8 \<Rightarrow> u8 list \<Rightarrow> u8 list" where
  "cmd_07_a2_request param cmd =
     cmd[0 := 0xaa, 1 := 0x55, 2 := 0x00, 3 := 0x03, 4 := 0x07, 5 := 0xa2, 6 := param]"

definition cmd_04_40_58_04_request :: "u8 list \<Rightarrow> u8 list" where
  "cmd_04_40_58_04_request cmd =
     cmd[0 := 0xaa, 1 := 0x55, 2 := 0x00, 3 := 0x04, 4 := 0x04, 5 := 0x40, 6 := 0x58, 7 := 0x04]"

definition cmd_04_7f_fe_02_request :: "u8 list \<Rightarrow> u8 list" where
  "cmd_04_7f_fe_02_request cmd =
     cmd[0 := 0xaa, 1 := 0x55, 2 := 0x00, 3 := 0x04, 4 := 0x04, 5 := 0x7f, 6 := 0xfe, 7 := 0x02]"

definition cmd_04_40_00_02_request :: "u8 list \<Rightarrow> u8 list" where
  "cmd_04_40_00_02_request cmd =
     cmd[0 := 0xaa, 1 := 0x55, 2 := 0x00, 3 := 0x04, 4 := 0x04, 5 := 0x40, 6 := 0x00, 7 := 0x02]"

definition cmd_07_13_request :: "u16 \<Rightarrow> u8 list \<Rightarrow> u8 list" where
  "cmd_07_13_request reg cmd =
     cmd[0 := 0xaa, 1 := 0x55, 2 := 0x00, 3 := 0x04, 4 := 0x07, 5 := 0x13,
         6 := byte_of16 reg 8, 7 := byte_of16 reg 0]"

text \<open>
  One constructor for each builder, named after it, so that a statement can speak of every
  command. \<open>request_of X cmd\<close> is the command buffer after the assignments of builder
  \<open>X\<close>, started in the buffer \<open>cmd\<close>.
\<close>

datatype bdm_cmd =
  Cmd_write_memory_byte_addr u32 u8
| Cmd_read_memory_byte_addr u32
| Cmd_write_memory_word_addr u32 u16
| Cmd_read_memory_word_addr u32
| Cmd_write_memory_short_addr u16 u32
| Cmd_write_memory_long_addr u32 u32
| Cmd_set_memory_window u32
| Cmd_read_memory_long_addr u32
| Cmd_0717_read_memory u32 u16
| Cmd_071b u32 u16
| Cmd_bdm_resume
| Cmd_07_02_bdm_go
| Cmd_07_14_write_bdm_reg u16 u32
| Cmd_07_14_write_debug_reg u16 u32
| Cmd_bdm_freeze
| Cmd_enter_mode u8
| Cmd_enable_memory_access u8
| Cmd_read_memory_block u32
| Cmd_07_17_setup_window u32
| Cmd_07_1b u32 u16
| Cmd_07_12 u16
| Cmd_07_1e u16 u32 u8
| Cmd_071e_write_sram u32 u32
| Cmd_read_bdm_reg u16
| Cmd_write_bdm_reg u16 u32
| Cmd_07_11 u16 u8 u8 u8 u8
| Cmd_07_11_read_bdm_reg u16 u16
| Cmd_07_16_write_pc u32
| Cmd_07_15 u16 "u8 list"
| Cmd_bdm_halt
| Cmd_07_95
| Cmd_bdm_cmd_00_02
| Cmd_07_14 u16 u8 u8 u8 u8 u32
| Cmd_07_19 u32 u32
| Cmd_07_10 u16
| Cmd_07_17
| Cmd_01_0b
| Cmd_07_a2 u8
| Cmd_04_40_58_04
| Cmd_04_7f_fe_02
| Cmd_04_40_00_02
| Cmd_07_13 u16

fun request_of :: "bdm_cmd \<Rightarrow> u8 list \<Rightarrow> u8 list" where
  "request_of (Cmd_write_memory_byte_addr addr data) cmd = cmd_write_memory_byte_addr_request addr data cmd"
| "request_of (Cmd_read_memory_byte_addr addr) cmd = cmd_read_memory_byte_addr_request addr cmd"
| "request_of (Cmd_write_memory_word_addr addr data) cmd = cmd_write_memory_word_addr_request addr data cmd"
| "request_of (Cmd_read_memory_word_addr addr) cmd = cmd_read_memory_word_addr_request addr cmd"
| "request_of (Cmd_write_memory_short_addr addr data) cmd = cmd_write_memory_short_addr_request addr data cmd"
| "request_of (Cmd_write_memory_long_addr addr data) cmd = cmd_write_memory_long_addr_request addr data cmd"
| "request_of (Cmd_set_memory_window window_addr) cmd = cmd_set_memory_window_request window_addr cmd"
| "request_of (Cmd_read_memory_long_addr addr) cmd = cmd_read_memory_long_addr_request addr cmd"
| "request_of (Cmd_0717_read_memory addr len) cmd = cmd_0717_request addr len cmd"
| "request_of (Cmd_071b addr len) cmd = cmd_071b_request addr len cmd"
| "request_of Cmd_bdm_resume cmd = cmd_bdm_resume_request cmd"
| "request_of Cmd_07_02_bdm_go cmd = cmd_07_02_bdm_go_request cmd"
| "request_of (Cmd_07_14_write_bdm_reg reg val) cmd = cmd_07_14_write_bdm_reg_request reg val cmd"
| "request_of (Cmd_07_14_write_debug_reg drc val) cmd = cmd_07_14_write_debug_reg_request drc val cmd"
| "request_of Cmd_bdm_freeze cmd = cmd_bdm_freeze_request cmd"
| "request_of (Cmd_enter_mode mode) cmd = cmd_enter_mode_request mode cmd"
| "request_of (Cmd_enable_memory_access param) cmd = cmd_enable_memory_access_request param cmd"
| "request_of (Cmd_read_memory_block addr) cmd = cmd_read_memory_block_request addr cmd"
| "request_of (Cmd_07_17_setup_window addr) cmd = cmd_07_17_setup_window_request addr cmd"
| "request_of (Cmd_07_1b addr sz) cmd = cmd_07_1b_request addr sz cmd"
| "request_of (Cmd_07_12 param) cmd = cmd_07_12_request param cmd"
| "request_of (Cmd_07_1e p1 p2 p3) cmd = cmd_07_1e_request p1 p2 p3 cmd"
| "request_of (Cmd_071e_write_sram addr data) cmd = cmd_071e_write_sram_request addr data cmd"
| "request_of (Cmd_read_bdm_reg reg) cmd = cmd_read_bdm_reg_request reg cmd"
| "request_of (Cmd_write_bdm_reg reg data) cmd = cmd_write_bdm_reg_request reg data cmd"
| "request_of (Cmd_07_11 reg p1 p2 p3 p4) cmd = cmd_07_11_request reg p1 p2 p3 p4 cmd"
| "request_of (Cmd_07_11_read_bdm_reg window reg) cmd = cmd_07_11_read_bdm_reg_request window reg cmd"
| "request_of (Cmd_07_16_write_pc pc_value) cmd = cmd_07_16_write_pc_request pc_value cmd"
| "request_of (Cmd_07_15 reg params) cmd = cmd_07_15_request reg params cmd"
| "request_of Cmd_bdm_halt cmd = cmd_bdm_halt_request cmd"
| "request_of Cmd_07_95 cmd = cmd_07_95_request cmd"
| "request_of Cmd_bdm_cmd_00_02 cmd = cmd_bdm_cmd_00_02_request cmd"
| "request_of (Cmd_07_14 reg p1 p2 p3 p4 addr) cmd = cmd_07_14_request reg p1 p2 p3 p4 addr cmd"
| "request_of (Cmd_07_19 addr data) cmd = cmd_07_19_request addr data cmd"
| "request_of (Cmd_07_10 reg) cmd = cmd_07_10_request reg cmd"
| "request_of Cmd_07_17 cmd = cmd_07_17_request cmd"
| "request_of Cmd_01_0b cmd = cmd_01_0b_request cmd"
| "request_of (Cmd_07_a2 param) cmd = cmd_07_a2_request param cmd"
| "request_of Cmd_04_40_58_04 cmd = cmd_04_40_58_04_request cmd"
| "request_of Cmd_04_7f_fe_02 cmd = cmd_04_7f_fe_02_request cmd"
| "request_of Cmd_04_40_00_02 cmd = cmd_04_40_00_02_request cmd"
| "request_of (Cmd_07_13 reg) cmd = cmd_07_13_request reg cmd"

text \<open>
  The four requests that \<^verbatim>\<open>cmd_bdm_reinit_after_execution\<close> builds in line, in order.
\<close>

definition cmd_bdm_reinit_after_execution_requests :: "bdm_cmd list" where
  "cmd_bdm_reinit_after_execution_requests =
     [Cmd_enter_mode 0xf8, Cmd_enter_mode 0xf0, Cmd_enter_mode 0xf8, Cmd_enable_memory_access 0x00]"

text \<open>
  The part every builder shares: the assignments, then the OUT transfer of the 256 bytes
  of the command buffer. What follows the OUT transfer (no IN transfer, one into a local
  buffer or into the command buffer, and the parsing of the response) differs from builder
  to builder and plays no part in what goes out. The guards of
  \<^verbatim>\<open>cmd_0717_read_memory\<close>, \<^verbatim>\<open>cmd_071b\<close> and \<^verbatim>\<open>cmd_read_memory_block\<close> on the
  caller's output buffer return before anything is built, so no request goes out then.
\<close>

definition send_request :: "device \<Rightarrow> bdm_cmd \<Rightarrow> pod \<Rightarrow> bool \<times> pod" where
  "send_request dev X s =
     (let s0 = s\<lparr>g_cmd_buffer := request_of X (g_cmd_buffer s)\<rparr>
      in bulk_out dev (take 256 (g_cmd_buffer s0)) s0)"

text \<open>
  The declared length of a request is the big-endian 16-bit value at bytes 2 and 3 of the
  frame; the header is the four bytes before the command byte.
\<close>

definition declared_len :: "u8 list \<Rightarrow> nat" where
  "declared_len req = unat (req ! 2) * 256 + unat (req ! 3)"

text \<open>
  \<open>assigned_upto X\<close> is one more than the highest index that builder \<open>X\<close> assigns:
  the number of leading bytes of the buffer that it writes.
\<close>

fun assigned_upto :: "bdm_cmd \<Rightarrow> nat" where
  "assigned_upto (Cmd_write_memory_byte_addr addr data) = 14"
| "assigned_upto (Cmd_read_memory_byte_addr addr) = 10"
| "assigned_upto (Cmd_write_memory_word_addr addr data) = 12"
| "assigned_upto (Cmd_read_memory_word_addr addr) = 10"
| "assigned_upto (Cmd_write_memory_short_addr addr data) = 12"
| "assigned_upto (Cmd_write_memory_long_addr addr data) = 14"
| "assigned_upto (Cmd_set_memory_window window_addr) = 10"
| "assigned_upto (Cmd_read_memory_long_addr addr) = 10"
| "assigned_upto (Cmd_0717_read_memory addr len) = 12"
| "assigned_upto (Cmd_071b addr len) = 12"
| "assigned_upto Cmd_bdm_resume = 8"
| "assigned_upto Cmd_07_02_bdm_go = 9"
| "assigned_upto (Cmd_07_14_write_bdm_reg reg val) = 16"
| "assigned_upto (Cmd_07_14_write_debug_reg drc val) = 16"
| "assigned_upto Cmd_bdm_freeze = 8"
| "assigned_upto (Cmd_enter_mode mode) = 7"
| "assigned_upto (Cmd_enable_memory_access param) = 7"
| "assigned_upto (Cmd_read_memory_block addr) = 12"
| "assigned_upto (Cmd_07_17_setup_window addr) = 256"
| "assigned_upto (Cmd_07_1b addr sz) = 12"
| "assigned_upto (Cmd_07_12 param) = 256"
| "assigned_upto (Cmd_07_1e p1 p2 p3) = 256"
| "assigned_upto (Cmd_071e_write_sram addr data) = 256"
| "assigned_upto (Cmd_read_bdm_reg reg) = 8"
| "assigned_upto (Cmd_write_bdm_reg reg data) = 12"
| "assigned_upto (Cmd_07_11 reg p1 p2 p3 p4) = 12"
| "assigned_upto (Cmd_07_11_read_bdm_reg window reg) = 256"
| "assigned_upto (Cmd_07_16_write_pc pc_value) = 12"
| "assigned_upto (Cmd_07_15 reg params) = 8 + min (length params) 248"
| "assigned_upto Cmd_bdm_halt = 8"
| "assigned_upto Cmd_07_95 = 6"
| "assigned_upto Cmd_bdm_cmd_00_02 = 8"
| "assigned_upto (Cmd_07_14 reg p1 p2 p3 p4 addr) = 16"
| "assigned_upto (Cmd_07_19 addr data) = 256"
| "assigned_upto (Cmd_07_10 reg) = 9"
| "assigned_upto Cmd_07_17 = 12"
| "assigned_upto Cmd_01_0b = 6"
| "assigned_upto (Cmd_07_a2 param) = 7"
| "assigned_upto Cmd_04_40_58_04 = 8"
| "assigned_upto Cmd_04_7f_fe_02 = 8"
| "assigned_upto Cmd_04_40_00_02 = 8"
| "assigned_upto (Cmd_07_13 reg) = 8"

text \<open>
  Three kinds of builder. Six write a padding of their own up to index 255. Four assign
  address or data bytes past the length they declare (\<^verbatim>\<open>cmd_read_memory_byte_addr\<close> and
  \<^verbatim>\<open>cmd_read_memory_word_addr\<close> declare 4 and assign ten bytes,
  \<^verbatim>\<open>cmd_write_memory_word_addr\<close> declares 6 and assigns twelve,
  \<^verbatim>\<open>cmd_set_memory_window\<close> declares 5 and assigns ten). All the others write the
  header and the bytes they declare, and nothing else; for \<^verbatim>\<open>cmd_07_15\<close> this needs
  \<open>4 + param_count\<close> to fit the 16-bit length field.
\<close>

definition self_padding :: "bdm_cmd \<Rightarrow> bool" where
  "self_padding X =
     (case X of
        Cmd_07_19 addr data \<Rightarrow> True
      | Cmd_07_12 param \<Rightarrow> True
      | Cmd_07_1e p1 p2 p3 \<Rightarrow> True
      | Cmd_071e_write_sram addr data \<Rightarrow> True
      | Cmd_07_11_read_bdm_reg window reg \<Rightarrow> True
      | Cmd_07_17_setup_window addr \<Rightarrow> True
      | _ \<Rightarrow> False)"

definition past_declared :: "bdm_cmd \<Rightarrow> bool" where
  "past_declared X =
     (case X of
        Cmd_read_memory_byte_addr addr \<Rightarrow> True
      | Cmd_read_memory_word_addr addr \<Rightarrow> True
      | Cmd_write_memory_word_addr addr data \<Rightarrow> True
      | Cmd_set_memory_window window_addr \<Rightarrow> True
      | _ \<Rightarrow> False)"

definition header_only :: "bdm_cmd \<Rightarrow> bool" where
  "header_only X =
     (\<not> self_padding X \<and> \<not> past_declared X \<and>
      (case X of Cmd_07_15 reg params \<Rightarrow> 4 + length params < 65536 | _ \<Rightarrow> True))"

subsection \<open>What the padding loops and the parameter loop write\<close>

lemma pad_pairs_length: "length (pad_pairs i hi lo cmd) = length cmd"
proof (induction i hi lo cmd rule: pad_pairs.induct)
  case (1 i hi lo cmd)
  then show ?case by (simp add: pad_pairs.simps [of i hi lo cmd])
qed

lemma pad_pairs_nth:
  "j < length cmd \<Longrightarrow> j < 256 \<Longrightarrow>
   pad_pairs i hi lo cmd ! j = (if i \<le> j then (if even (j - i) then hi else lo) else cmd ! j)"
proof (induction i hi lo cmd rule: pad_pairs.induct)
  case (1 i hi lo cmd)
  show ?case
  proof (cases "i < 256")
    case False
    then have "pad_pairs i hi lo cmd = cmd" by (simp add: pad_pairs.simps [of i hi lo cmd])
    with False "1.prems" show ?thesis by simp
  next
    case True
    let ?c = "if i + 1 < 256 then cmd[i := hi, i + 1 := lo] else cmd[i := hi]"
    have unf: "pad_pairs i hi lo cmd = pad_pairs (i + 2) hi lo ?c"
      using True by (simp add: pad_pairs.simps [of i hi lo cmd])
    have ih: "pad_pairs (i + 2) hi lo ?c ! j =
        (if i + 2 \<le> j then (if even (j - (i + 2)) then hi else lo) else ?c ! j)"
      using "1.IH" [OF True] "1.prems" by simp
    have cj: "?c ! j = (if j = i then hi else if j = i + 1 then lo else cmd ! j)"
      using "1.prems" by (auto simp: nth_list_update)
    have ev: "i + 2 \<le> j \<Longrightarrow> even (j - (i + 2)) = even (j - i)"
      by auto
    show ?thesis
    proof (cases "i + 2 \<le> j")
      case True
      then show ?thesis unfolding unf ih using ev by simp
    next
      case False
      then consider "j < i" | "j = i" | "j = i + 1" by linarith
      then show ?thesis
      proof cases
        case 1
        with False show ?thesis unfolding unf ih cj by simp
      next
        case 2
        with False show ?thesis unfolding unf ih cj by simp
      next
        case 3
        with False show ?thesis unfolding unf ih cj by simp
      qed
    qed
  qed
qed

lemma fold_update_length:
  "length (fold (\<lambda>i c. c[f i := g i]) ks c) = length c"
  by (induction ks arbitrary: c) simp_all

lemma fold_update_nth:
  "\<forall>i\<in>set ks. f i \<noteq> j \<Longrightarrow> fold (\<lambda>i c. c[f i := g i]) ks c ! j = c ! j"
  by (induction ks arbitrary: c) simp_all

subsection \<open>Every builder leaves the bytes it does not assign\<close>

lemma request_of_frame:
  assumes "assigned_upto X \<le> j" and "j < 256"
  shows "request_of X cmd ! j = cmd ! j"
proof (cases X)
  case (Cmd_07_15 reg params)
  have "\<forall>i\<in>set [0..<min (length params) 248]. 8 + i \<noteq> j"
    using assms unfolding Cmd_07_15 by auto
  then show ?thesis
    using assms unfolding Cmd_07_15
    by (simp add: cmd_07_15_request_def Let_def fold_update_nth)
qed (use assms in \<open>simp_all add: cmd_write_memory_byte_addr_request_def
   cmd_read_memory_byte_addr_request_def cmd_write_memory_word_addr_request_def
   cmd_read_memory_word_addr_request_def cmd_write_memory_short_addr_request_def
   cmd_write_memory_long_addr_request_def cmd_set_memory_window_request_def
   cmd_read_memory_long_addr_request_def cmd_0717_request_def cmd_071b_request_def
   cmd_bdm_resume_request_def cmd_07_02_bdm_go_request_def cmd_07_14_write_bdm_reg_request_def
   cmd_07_14_write_debug_reg_request_def cmd_bdm_freeze_request_def cmd_enter_mode_request_def
   cmd_enable_memory_access_request_def cmd_read_memory_block_request_def cmd_07_1b_request_def
   cmd_read_bdm_reg_request_def cmd_write_bdm_reg_request_def cmd_07_11_request_def
   cmd_07_16_write_pc_request_def cmd_bdm_halt_request_def cmd_07_95_request_def
   cmd_bdm_cmd_00_02_request_def cmd_07_14_request_def cmd_07_10_request_def
   cmd_07_17_request_def cmd_01_0b_request_def cmd_07_a2_request_def
   cmd_04_40_58_04_request_def cmd_04_7f_fe_02_request_def cmd_04_40_00_02_request_def
   cmd_07_13_request_def Let_def\<close>)


subsection \<open>The declared length of each request\<close>

lemma unat_u8_of_nat: "unat (of_nat k :: u8) = k mod 256"
  by (simp add: unat_of_nat)

lemma declared_len_07_15:
  assumes "length cmd = 256"
  shows "declared_len (cmd_07_15_request reg params cmd) = (4 + length params) mod 65536"
proof -
  let ?len = "4 + length params"
  let ?h = "cmd[0 := 0xaa, 1 := 0x55, 2 := of_nat (?len div 256 mod 256), 3 := of_nat (?len mod 256),
                4 := 0x07, 5 := 0x15, 6 := byte_of16 reg 8, 7 := byte_of16 reg 0]"
  have n2: "\<forall>i\<in>set [0..<min (length params) 248]. 8 + i \<noteq> 2"
   and n3: "\<forall>i\<in>set [0..<min (length params) 248]. 8 + i \<noteq> 3"
    by auto
  have b2: "cmd_07_15_request reg params cmd ! 2 = of_nat (?len div 256 mod 256)"
    using assms fold_update_nth [OF n2, of "\<lambda>i. params ! i" ?h]
    by (simp add: cmd_07_15_request_def Let_def)
  have b3: "cmd_07_15_request reg params cmd ! 3 = of_nat (?len mod 256)"
    using assms fold_update_nth [OF n3, of "\<lambda>i. params ! i" ?h]
    by (simp add: cmd_07_15_request_def Let_def)
  have "declared_len (cmd_07_15_request reg params cmd) =
        (?len div 256 mod 256) * 256 + ?len mod 256"
    unfolding declared_len_def b2 b3 by (simp add: unat_u8_of_nat)
  also have "\<dots> = ?len mod 65536"
  proof -
    have "?len mod 65536 = ?len mod (256 * 256)" by simp
    also have "\<dots> = 256 * (?len div 256 mod 256) + ?len mod 256"
      by (rule mod_mult2_eq)
    finally show ?thesis by simp
  qed
  finally show ?thesis .
qed

lemma header_only_declared:
  assumes "length cmd = 256" and "header_only X"
  shows "assigned_upto X \<le> 4 + declared_len (request_of X cmd)"
proof (cases X)
  case (Cmd_07_15 reg params)
  have "4 + length params < 65536"
    using assms(2) unfolding Cmd_07_15 by (simp add: header_only_def)
  then have "declared_len (cmd_07_15_request reg params cmd) = 4 + length params"
    using declared_len_07_15 [OF assms(1), of reg params] by simp
  then show ?thesis unfolding Cmd_07_15 by simp
qed (use assms in \<open>simp_all add: header_only_def self_padding_def past_declared_def
   declared_len_def cmd_write_memory_byte_addr_request_def
   cmd_write_memory_short_addr_request_def
   cmd_write_memory_long_addr_request_def
   cmd_read_memory_long_addr_request_def cmd_0717_request_def cmd_071b_request_def
   cmd_bdm_resume_request_def cmd_07_02_bdm_go_request_def cmd_07_14_write_bdm_reg_request_def
   cmd_07_14_write_debug_reg_request_def cmd_bdm_freeze_request_def cmd_enter_mode_request_def
   cmd_enable_memory_access_request_def cmd_read_memory_block_request_def cmd_07_1b_request_def
   cmd_read_bdm_reg_request_def cmd_write_bdm_reg_request_def cmd_07_11_request_def
   cmd_07_16_write_pc_request_def cmd_bdm_halt_request_def cmd_07_95_request_def
   cmd_bdm_cmd_00_02_request_def cmd_07_14_request_def cmd_07_10_request_def
   cmd_07_17_request_def cmd_01_0b_request_def cmd_07_a2_request_def
   cmd_04_40_58_04_request_def cmd_04_7f_fe_02_request_def cmd_04_40_00_02_request_def
   cmd_07_13_request_def Let_def\<close>)

lemma excepted_declared:
  assumes "length cmd = 256" and "self_padding X \<or> past_declared X"
  shows "4 + declared_len (request_of X cmd) < assigned_upto X"
proof (cases X)
  case (Cmd_07_19 addr data)
  have l: "256 \<le> length (pad_0719 16 (memset_256 0x00 cmd))"
    using memset_256_length [of 0 cmd] by (simp add: pad_0719_length)
  show ?thesis unfolding Cmd_07_19 using l
    by (simp add: declared_len_def cmd_07_19_request_def)
qed (use assms in \<open>simp_all add: self_padding_def past_declared_def declared_len_def
   cmd_read_memory_byte_addr_request_def cmd_write_memory_word_addr_request_def
   cmd_read_memory_word_addr_request_def cmd_set_memory_window_request_def
   cmd_07_17_setup_window_request_def cmd_07_12_request_def cmd_07_1e_request_def
   cmd_071e_write_sram_request_def cmd_07_11_read_bdm_reg_request_def pad_pairs_nth\<close>)


subsection \<open>The request that goes out\<close>

lemma send_request_sent:
  "dev_out dev (n_out s) = None \<Longrightarrow>
   last_request (snd (send_request dev X s)) = take 256 (request_of X (g_cmd_buffer s))"
  by (simp add: send_request_def bulk_out_def last_request_def Let_def)

text \<open>
  For the builders modelled in full above, the request that the whole command puts on the
  OUT endpoint is the one \<open>send_request\<close> sends.
\<close>

lemma full_commands_send_request:
  assumes "dev_out dev (n_out s) = None"
  shows "last_request (snd (cmd_enter_mode dev mode s)) =
           last_request (snd (send_request dev (Cmd_enter_mode mode) s))"
    and "last_request (snd (cmd_07_02_bdm_go dev s)) =
           last_request (snd (send_request dev Cmd_07_02_bdm_go s))"
    and "last_request (snd (cmd_07_14_write_bdm_reg dev reg val s)) =
           last_request (snd (send_request dev (Cmd_07_14_write_bdm_reg reg val) s))"
    and "last_request (snd (cmd_bdm_halt dev s)) =
           last_request (snd (send_request dev Cmd_bdm_halt s))"
    and "last_request (snd (cmd_07_12 dev param s)) =
           last_request (snd (send_request dev (Cmd_07_12 param) s))"
    and "last_request (snd (cmd_07_19 dev addr data s)) =
           last_request (snd (send_request dev (Cmd_07_19 addr data) s))"
    and "last_request (snd (snd (cmd_bdm_freeze dev f s))) =
           last_request (snd (send_request dev Cmd_bdm_freeze s))"
proof -
  have a: "last_request (snd (snd (cmd_bdm_freeze dev f s))) =
           take 256 (cmd_bdm_freeze_request (g_cmd_buffer s))"
    using assms
    by (simp add: cmd_bdm_freeze_def bulk_out_def bulk_in_def last_request_def Let_def
          split: sum.splits prod.splits)
  have b: "last_request (snd (send_request dev Cmd_bdm_freeze s)) =
           take 256 (cmd_bdm_freeze_request (g_cmd_buffer s))"
    using send_request_sent [OF assms, of Cmd_bdm_freeze] by simp
  show "last_request (snd (snd (cmd_bdm_freeze dev f s))) =
           last_request (snd (send_request dev Cmd_bdm_freeze s))"
    unfolding a b ..
qed (use assms in \<open>simp_all add: send_request_sent cmd_enter_mode_def cmd_07_02_bdm_go_def
       cmd_07_14_write_bdm_reg_def cmd_bdm_halt_def cmd_07_12_def cmd_07_19_def
       send_aa_command_sent\<close>)

text \<open>
  Claim C1, as the code has it. Whatever the previous command left in the persistent
  buffer, the 256-byte request of a builder carries, at every index from the end of the
  bytes the builder assigns up to 255, exactly the byte that was there before. For the
  builders that write the header and the bytes they declare (all but the ten named
  above), the assigned bytes end at header plus declared length, so the request
  preserves every byte past its header and declared length. The ten others assign bytes
  past their header and declared length: the six that pad for themselves
  (\<^verbatim>\<open>cmd_07_19\<close>, \<^verbatim>\<open>cmd_07_12\<close>, \<^verbatim>\<open>cmd_07_1e\<close>, \<^verbatim>\<open>cmd_071e_write_sram\<close>,
  \<^verbatim>\<open>cmd_07_11_read_bdm_reg\<close>, \<^verbatim>\<open>cmd_07_17_setup_window\<close>) and the four whose
  declared length is shorter than what they assign (\<^verbatim>\<open>cmd_read_memory_byte_addr\<close>,
  \<^verbatim>\<open>cmd_read_memory_word_addr\<close>, \<^verbatim>\<open>cmd_write_memory_word_addr\<close>,
  \<^verbatim>\<open>cmd_set_memory_window\<close>).
\<close>

theorem C1_builders_preserve:
  assumes "dev_out dev (n_out s) = None" and "length (g_cmd_buffer s) = 256" and "j < 256"
  shows "(assigned_upto X \<le> j \<longrightarrow>
            last_request (snd (send_request dev X s)) ! j = g_cmd_buffer s ! j) \<and>
         (header_only X \<and> 4 + declared_len (last_request (snd (send_request dev X s))) \<le> j \<longrightarrow>
            last_request (snd (send_request dev X s)) ! j = g_cmd_buffer s ! j) \<and>
         (self_padding X \<or> past_declared X \<longrightarrow>
            4 + declared_len (last_request (snd (send_request dev X s))) < assigned_upto X)"
proof -
  let ?req = "request_of X (g_cmd_buffer s)"
  have sent: "last_request (snd (send_request dev X s)) = take 256 ?req"
    by (rule send_request_sent [OF assms(1)])
  have nth: "take 256 ?req ! j = ?req ! j"
    using assms(3) by simp
  have dl: "declared_len (take 256 ?req) = declared_len ?req"
    by (simp add: declared_len_def)
  have frame: "assigned_upto X \<le> j \<Longrightarrow> ?req ! j = g_cmd_buffer s ! j"
    using request_of_frame [of X j "g_cmd_buffer s"] assms(3) by simp
  have ho: "header_only X \<Longrightarrow> assigned_upto X \<le> 4 + declared_len ?req"
    by (rule header_only_declared [OF assms(2)])
  have ex: "self_padding X \<or> past_declared X \<Longrightarrow> 4 + declared_len ?req < assigned_upto X"
    by (rule excepted_declared [OF assms(2)])
  show ?thesis
    unfolding sent nth dl using frame ho ex by auto
qed

text \<open>
  The theorem after an \<^verbatim>\<open>Enter Mode\<close> whose response left 0xab at index 17 of the
  buffer: the request of BDM GO (header 4, declared length 5) carries that 0xab at index
  17, and the request of \<^verbatim>\<open>cmd_07_12\<close> declares 2 bytes and assigns all 256.
\<close>

theorem C1_builders_preserve_witness:
  "last_request (snd (send_request ack_device Cmd_07_02_bdm_go
       (snd (cmd_enter_mode ack_device 0xf8 pod_init)))) ! 17 =
     g_cmd_buffer (snd (cmd_enter_mode ack_device 0xf8 pod_init)) ! 17 \<and>
   g_cmd_buffer (snd (cmd_enter_mode ack_device 0xf8 pod_init)) ! 17 = 0xab \<and>
   4 + declared_len (last_request (snd (send_request ack_device (Cmd_07_12 0xffff)
       (snd (cmd_enter_mode ack_device 0xf8 pod_init))))) < assigned_upto (Cmd_07_12 0xffff)"
proof -
  let ?s1 = "snd (cmd_enter_mode ack_device 0xf8 pod_init)"
  have out: "dev_out ack_device (n_out ?s1) = None" by (simp add: ack_device_def)
  have len: "length (g_cmd_buffer ?s1) = 256"
    by (simp add: cmd_enter_mode_def send_aa_command_def bulk_out_def bulk_in_def
          last_request_def ack_device_def pod_init_def store_at_def uninit_buffer_def
          cmd_enter_mode_request_def)
  have j: "(17 :: nat) < 256" by simp
  have up: "assigned_upto Cmd_07_02_bdm_go \<le> 17" by simp
  have ho: "header_only Cmd_07_02_bdm_go"
    by (simp add: header_only_def self_padding_def past_declared_def)
  have req: "last_request (snd (send_request ack_device Cmd_07_02_bdm_go ?s1)) =
             take 256 (request_of Cmd_07_02_bdm_go (g_cmd_buffer ?s1))"
    by (rule send_request_sent [OF out])
  have dl: "4 + declared_len (last_request (snd (send_request ack_device Cmd_07_02_bdm_go ?s1))) \<le> 17"
    unfolding req using len by (simp add: declared_len_def cmd_07_02_bdm_go_request_def)
  have sp: "self_padding (Cmd_07_12 0xffff)" by (simp add: self_padding_def)
  have buf: "g_cmd_buffer ?s1 ! 17 = 0xab"
    by (simp add: cmd_enter_mode_def send_aa_command_def bulk_out_def bulk_in_def
          last_request_def ack_device_def pod_init_def store_at_def uninit_buffer_def nth_append)
  from C1_builders_preserve [OF out len j, of Cmd_07_02_bdm_go]
       C1_builders_preserve [OF out len j, of "Cmd_07_12 0xffff"] up ho dl sp buf
  show ?thesis by simp
qed

text \<open>
  Claim C1 as stated, for every command, fails at \<^verbatim>\<open>cmd_07_19\<close>: after an
  \<^verbatim>\<open>Enter Mode\<close> whose response left 0xab at index 17 of the buffer, the request of
  \<^verbatim>\<open>cmd_07_19\<close> (header 4, declared length 12) carries 0x00 at index 17: the command
  zeroes the buffer and writes its own padding.
\<close>

theorem C1_cmd_07_19_overwrites:
  "4 + declared_len (last_request (snd (cmd_07_19 ack_device 0x20000000 3
       (snd (cmd_enter_mode ack_device 0xf8 pod_init))))) \<le> 17 \<and>
   g_cmd_buffer (snd (cmd_enter_mode ack_device 0xf8 pod_init)) ! 17 = 0xab \<and>
   last_request (snd (cmd_07_19 ack_device 0x20000000 3
       (snd (cmd_enter_mode ack_device 0xf8 pod_init)))) ! 17 = 0x00"
proof -
  have out: "dev_out ack_device k = None" for k by (simp add: ack_device_def)
  let ?s1 = "snd (cmd_enter_mode ack_device 0xf8 pod_init)"
  have req: "last_request (snd (cmd_07_19 ack_device 0x20000000 3 ?s1)) =
             take 256 (cmd_07_19_request 0x20000000 3 (g_cmd_buffer ?s1))"
    by (simp add: cmd_07_19_def send_aa_command_sent out)
  have l256: "256 \<le> length (cmd_07_19_request 0x20000000 3 (g_cmd_buffer ?s1))"
    by (rule cmd_07_19_request_length)
  have b2: "cmd_07_19_request 0x20000000 3 (g_cmd_buffer ?s1) ! 2 = 0"
    and b3: "cmd_07_19_request 0x20000000 3 (g_cmd_buffer ?s1) ! 3 = 0x0c"
    using memset_256_length [of 0 "g_cmd_buffer ?s1"]
    by (simp_all add: cmd_07_19_request_def pad_0719_length)
  have b17: "cmd_07_19_request 0x20000000 3 (g_cmd_buffer ?s1) ! 17 = 0"
    using cmd_07_19_request_padding [of 17 "0x20000000" 3 "g_cmd_buffer ?s1"] by simp
  have buf: "g_cmd_buffer ?s1 ! 17 = 0xab"
    by (simp add: cmd_enter_mode_def send_aa_command_def bulk_out_def bulk_in_def
          last_request_def ack_device_def pod_init_def store_at_def uninit_buffer_def nth_append)
  show ?thesis
    unfolding req using b2 b3 b17 buf by (simp add: declared_len_def)
qed

text \<open>
  Each of the ten builders set apart does overwrite a byte past its header and declared
  length in some buffer: there is a 256-byte buffer and an index in that range at which
  the request differs from the buffer. So none of them can be counted with the builders
  of the theorem.
\<close>

lemma u8_succ_neq: "(x :: u8) + 1 \<noteq> x"
  by simp

lemma excepted_builders_overwrite:
  assumes "self_padding X \<or> past_declared X"
  shows "\<exists>cmd j. length cmd = 256 \<and> 4 + declared_len (request_of X cmd) \<le> j \<and> j < 256 \<and>
                 request_of X cmd ! j \<noteq> cmd ! j"
proof (cases X)
  case (Cmd_read_memory_byte_addr addr)
  let ?cmd = "replicate 256 (byte_of addr 0 + 1)"
  have "length ?cmd = 256 \<and> 4 + declared_len (request_of X ?cmd) \<le> 9 \<and> (9 :: nat) < 256 \<and>
        request_of X ?cmd ! 9 \<noteq> ?cmd ! 9"
    unfolding Cmd_read_memory_byte_addr
    by (simp add: declared_len_def cmd_read_memory_byte_addr_request_def)
  then show ?thesis by blast
next
  case (Cmd_read_memory_word_addr addr)
  let ?cmd = "replicate 256 (byte_of addr 0 + 1)"
  have "length ?cmd = 256 \<and> 4 + declared_len (request_of X ?cmd) \<le> 9 \<and> (9 :: nat) < 256 \<and>
        request_of X ?cmd ! 9 \<noteq> ?cmd ! 9"
    unfolding Cmd_read_memory_word_addr
    by (simp add: declared_len_def cmd_read_memory_word_addr_request_def)
  then show ?thesis by blast
next
  case (Cmd_write_memory_word_addr addr data)
  let ?cmd = "replicate 256 (byte_of16 data 0 + 1)"
  have "length ?cmd = 256 \<and> 4 + declared_len (request_of X ?cmd) \<le> 11 \<and> (11 :: nat) < 256 \<and>
        request_of X ?cmd ! 11 \<noteq> ?cmd ! 11"
    unfolding Cmd_write_memory_word_addr
    by (simp add: declared_len_def cmd_write_memory_word_addr_request_def)
  then show ?thesis by blast
next
  case (Cmd_set_memory_window window_addr)
  let ?cmd = "replicate 256 (byte_of window_addr 0 + 1)"
  have "length ?cmd = 256 \<and> 4 + declared_len (request_of X ?cmd) \<le> 9 \<and> (9 :: nat) < 256 \<and>
        request_of X ?cmd ! 9 \<noteq> ?cmd ! 9"
    unfolding Cmd_set_memory_window
    by (simp add: declared_len_def cmd_set_memory_window_request_def)
  then show ?thesis by blast
next
  case (Cmd_07_19 addr data)
  let ?cmd = "replicate 256 (1 :: u8)"
  have l: "256 \<le> length (pad_0719 16 (memset_256 0x00 ?cmd))"
    using memset_256_length [of 0 ?cmd] by (simp add: pad_0719_length)
  have d: "4 + declared_len (request_of X ?cmd) \<le> 17"
    unfolding Cmd_07_19 using l by (simp add: declared_len_def cmd_07_19_request_def)
  have "request_of X ?cmd ! 17 = 0"
    unfolding Cmd_07_19 using cmd_07_19_request_padding [of 17 addr data ?cmd] by simp
  with d have "length ?cmd = 256 \<and> 4 + declared_len (request_of X ?cmd) \<le> 17 \<and>
        (17 :: nat) < 256 \<and> request_of X ?cmd ! 17 \<noteq> ?cmd ! 17"
    by simp
  then show ?thesis by blast
next
  case (Cmd_07_12 param)
  let ?cmd = "replicate 256 (byte_of16 param 8 + 1)"
  have "length ?cmd = 256 \<and> 4 + declared_len (request_of X ?cmd) \<le> 6 \<and> (6 :: nat) < 256 \<and>
        request_of X ?cmd ! 6 \<noteq> ?cmd ! 6"
    unfolding Cmd_07_12
    by (simp add: declared_len_def cmd_07_12_request_def pad_pairs_nth)
  then show ?thesis by blast
next
  case (Cmd_07_1e p1 p2 p3)
  let ?cmd = "replicate 256 (1 :: u8)"
  have "length ?cmd = 256 \<and> 4 + declared_len (request_of X ?cmd) \<le> 13 \<and> (13 :: nat) < 256 \<and>
        request_of X ?cmd ! 13 \<noteq> ?cmd ! 13"
    unfolding Cmd_07_1e
    by (simp add: declared_len_def cmd_07_1e_request_def pad_pairs_nth)
  then show ?thesis by blast
next
  case (Cmd_071e_write_sram addr data)
  let ?cmd = "replicate 256 (1 :: u8)"
  have "length ?cmd = 256 \<and> 4 + declared_len (request_of X ?cmd) \<le> 16 \<and> (16 :: nat) < 256 \<and>
        request_of X ?cmd ! 16 \<noteq> ?cmd ! 16"
    unfolding Cmd_071e_write_sram
    by (simp add: declared_len_def cmd_071e_write_sram_request_def pad_pairs_nth)
  then show ?thesis by blast
next
  case (Cmd_07_11_read_bdm_reg window reg)
  let ?cmd = "replicate 256 (0 :: u8)"
  have "length ?cmd = 256 \<and> 4 + declared_len (request_of X ?cmd) \<le> 12 \<and> (12 :: nat) < 256 \<and>
        request_of X ?cmd ! 12 \<noteq> ?cmd ! 12"
    unfolding Cmd_07_11_read_bdm_reg
    by (simp add: declared_len_def cmd_07_11_read_bdm_reg_request_def pad_pairs_nth)
  then show ?thesis by blast
next
  case (Cmd_07_17_setup_window addr)
  let ?cmd = "replicate 256 (0 :: u8)"
  have "length ?cmd = 256 \<and> 4 + declared_len (request_of X ?cmd) \<le> 12 \<and> (12 :: nat) < 256 \<and>
        request_of X ?cmd ! 12 \<noteq> ?cmd ! 12"
    unfolding Cmd_07_17_setup_window
    by (simp add: declared_len_def cmd_07_17_setup_window_request_def pad_pairs_nth)
  then show ?thesis by blast
qed (use assms in \<open>simp_all add: self_padding_def past_declared_def\<close>)

text \<open>
  What the padding loops leave: \<^verbatim>\<open>cmd_07_12\<close> fills bytes 6 to 255 with the two bytes
  of its parameter in turn, whatever the buffer held.
\<close>

lemma cmd_07_12_request_fills:
  assumes "length cmd = 256" and "6 \<le> j" and "j < 256"
  shows "cmd_07_12_request param cmd ! j =
         (if even (j - 6) then byte_of16 param 8 else byte_of16 param 0)"
  using assms by (simp add: cmd_07_12_request_def pad_pairs_nth)

text \<open>
  The same for the four other builders with a two-byte padding loop.
\<close>

lemma cmd_07_1e_request_fills:
  assumes "length cmd = 256" and "13 \<le> j" and "j < 256"
  shows "cmd_07_1e_request p1 p2 p3 cmd ! j = (if even (j - 13) then 0x00 else 0xff)"
  using assms by (simp add: cmd_07_1e_request_def pad_pairs_nth)

lemma cmd_071e_write_sram_request_fills:
  assumes "length cmd = 256" and "16 \<le> j" and "j < 256"
  shows "cmd_071e_write_sram_request addr data cmd ! j = (if even (j - 16) then 0x00 else 0xff)"
  using assms by (simp add: cmd_071e_write_sram_request_def pad_pairs_nth)

lemma cmd_07_11_read_bdm_reg_request_fills:
  assumes "length cmd = 256" and "12 \<le> j" and "j < 256"
  shows "cmd_07_11_read_bdm_reg_request window reg cmd ! j = (if even (j - 12) then 0xff else 0x00)"
  using assms by (simp add: cmd_07_11_read_bdm_reg_request_def pad_pairs_nth)

lemma cmd_07_17_setup_window_request_fills:
  assumes "length cmd = 256" and "12 \<le> j" and "j < 256"
  shows "cmd_07_17_setup_window_request addr cmd ! j = (if even (j - 12) then 0xff else 0x00)"
  using assms by (simp add: cmd_07_17_setup_window_request_def pad_pairs_nth)

text \<open>
  The four builders whose declared length is short: the length they declare and the last
  byte they assign.
\<close>

lemma past_declared_lengths:
  assumes "length cmd = 256"
  shows "declared_len (cmd_read_memory_byte_addr_request addr cmd) = 4 \<and>
         cmd_read_memory_byte_addr_request addr cmd ! 9 = byte_of addr 0"
    and "declared_len (cmd_read_memory_word_addr_request addr cmd) = 4 \<and>
         cmd_read_memory_word_addr_request addr cmd ! 9 = byte_of addr 0"
    and "declared_len (cmd_write_memory_word_addr_request addr data cmd) = 6 \<and>
         cmd_write_memory_word_addr_request addr data cmd ! 11 = byte_of16 data 0"
    and "declared_len (cmd_set_memory_window_request addr cmd) = 5 \<and>
         cmd_set_memory_window_request addr cmd ! 9 = byte_of addr 0"
  using assms
  by (simp_all add: declared_len_def cmd_read_memory_byte_addr_request_def
        cmd_read_memory_word_addr_request_def cmd_write_memory_word_addr_request_def
        cmd_set_memory_window_request_def)

text \<open>
  For the builders of the theorem the assigned bytes end exactly at header plus declared
  length (for \<^verbatim>\<open>cmd_07_15\<close> when all its parameters fit the buffer).
\<close>

lemma header_only_declared_eq:
  assumes "length cmd = 256" and "header_only X"
      and "case X of Cmd_07_15 reg params \<Rightarrow> length params \<le> 248 | _ \<Rightarrow> True"
  shows "assigned_upto X = 4 + declared_len (request_of X cmd)"
proof (cases X)
  case (Cmd_07_15 reg params)
  have "length params \<le> 248"
    using assms(3) unfolding Cmd_07_15 by simp
  then have "declared_len (cmd_07_15_request reg params cmd) = 4 + length params"
    using declared_len_07_15 [OF assms(1), of reg params] by simp
  with \<open>length params \<le> 248\<close> show ?thesis unfolding Cmd_07_15 by simp
qed (use assms(1,2) in \<open>simp_all add: header_only_def self_padding_def past_declared_def
   declared_len_def cmd_write_memory_byte_addr_request_def
   cmd_write_memory_short_addr_request_def
   cmd_write_memory_long_addr_request_def
   cmd_read_memory_long_addr_request_def cmd_0717_request_def cmd_071b_request_def
   cmd_bdm_resume_request_def cmd_07_02_bdm_go_request_def cmd_07_14_write_bdm_reg_request_def
   cmd_07_14_write_debug_reg_request_def cmd_bdm_freeze_request_def cmd_enter_mode_request_def
   cmd_enable_memory_access_request_def cmd_read_memory_block_request_def cmd_07_1b_request_def
   cmd_read_bdm_reg_request_def cmd_write_bdm_reg_request_def cmd_07_11_request_def
   cmd_07_16_write_pc_request_def cmd_bdm_halt_request_def cmd_07_95_request_def
   cmd_bdm_cmd_00_02_request_def cmd_07_14_request_def cmd_07_10_request_def
   cmd_07_17_request_def cmd_01_0b_request_def cmd_07_a2_request_def
   cmd_04_40_58_04_request_def cmd_04_7f_fe_02_request_def cmd_04_40_00_02_request_def
   cmd_07_13_request_def Let_def\<close>)

end
